theory Spec2Isabelle
  imports Main "HOL-Library.Sublist"
begin

section \<open>JavaScript string primitives used by the utilities\<close>

text \<open>
  Strings are lists of characters; a character is a code unit in the range 0 to 255.
\<close>

text \<open>\<^verbatim>\<open>s.split(c)\<close> for a one-character separator: never empty, \<^verbatim>\<open>''.split(c) = ['']\<close>.\<close>

fun js_split :: "char \<Rightarrow> string \<Rightarrow> string list" where
  "js_split c [] = [[]]"
| "js_split c (x # xs) =
     (if x = c then [] # js_split c xs
      else (case js_split c xs of
              [] \<Rightarrow> [[x]]
            | seg # segs \<Rightarrow> (x # seg) # segs))"

text \<open>\<^verbatim>\<open>xs.join(sep)\<close>.\<close>

fun js_join :: "string \<Rightarrow> string list \<Rightarrow> string" where
  "js_join sep [] = []"
| "js_join sep [x] = x"
| "js_join sep (x # y # ys) = x @ sep @ js_join sep (y # ys)"

definition startsWith :: "string \<Rightarrow> string \<Rightarrow> bool" where
  "startsWith s p = prefix p s"

section \<open>Operation-id generator (operationIdGenerator.ts)\<close>

text \<open>
  \<^verbatim>\<open>word.charAt(0).toUpperCase() + word.slice(1)\<close>. The built-in case mapping is not
  code of the repository: \<open>upperChr c\<close> stands for the upper case of the one-character
  string \<open>c\<close>, which may be longer than one character (sharp s becomes \<^verbatim>\<open>SS\<close>). For
  the empty word \<^verbatim>\<open>charAt(0)\<close> is the empty string, and so is its upper case. Of the
  code units 0 to 255 two have an upper case outside this range (the micro sign and y with
  diaeresis); a word that starts with one of them has no counterpart here.
\<close>

definition capitalizeWord :: "(char \<Rightarrow> string) \<Rightarrow> string \<Rightarrow> string" where
  "capitalizeWord upperChr word =
     (case word of [] \<Rightarrow> [] | c # cs \<Rightarrow> upperChr c @ cs)"

text \<open>\<^verbatim>\<open>pathParts[pathParts.length - 1] || ''\<close>: index \<open>-1\<close> of an empty array is undefined.\<close>

definition lastOrEmpty :: "string list \<Rightarrow> string" where
  "lastOrEmpty parts = (if parts = [] then [] else last parts)"

definition generateOperationId :: "(char \<Rightarrow> string) \<Rightarrow> string \<Rightarrow> string \<Rightarrow> string" where
  "generateOperationId upperChr method pathStr =
     (let pathParts = filter (\<lambda>p. p \<noteq> [] \<and> \<not> startsWith p ''{'') (js_split CHR ''/'' pathStr);
          lastPart = lastOrEmpty pathParts;
          formattedPart = js_join [] (map (capitalizeWord upperChr) (js_split CHR ''-'' lastPart))
      in method @ formattedPart)"

text \<open>
  The case mapping on the ASCII characters, where \<^verbatim>\<open>toUpperCase\<close> maps \<^verbatim>\<open>a..z\<close> to
  \<^verbatim>\<open>A..Z\<close> and leaves the others. It serves as the instance of \<open>upperChr\<close> at
  ASCII inputs.
\<close>

definition asciiUpper :: "char \<Rightarrow> string" where
  "asciiUpper c =
     (let n = (of_char c :: nat)
      in if 97 \<le> n \<and> n \<le> 122 then [char_of (n - 32)] else [c])"

section \<open>Path-parameter synchronizer (pathParameterParser.ts)\<close>

text \<open>
  \<^verbatim>\<open>PathParameter\<close>. Every field carries the prefix \<open>param_\<close>, since record fields
  are global names; the optional fields are options. \<^verbatim>\<open>enum\<close> is the raw
  comma-separated text.
\<close>

record PathParameter =
  param_name :: string
  param_in :: string
  param_description :: string
  param_required :: bool
  param_type :: string
  param_format :: "string option"
  param_enum :: "string option"
  param_default :: "string option"
  param_example :: "string option"
  param_deprecated :: "bool option"

text \<open>
  \<^verbatim>\<open>extractPathParameters\<close>: the successive matches of \<^verbatim>\<open>/\{([^}]+)\}/g\<close>. A match
  starts at an opening brace that is followed by at least one character other than the
  closing brace and then by a closing brace; the group is that run of characters, and the
  search goes on behind the closing brace. Where no match starts, the search moves one
  character on.
\<close>

function extractPathParameters :: "string \<Rightarrow> string list" where
  "extractPathParameters [] = []"
| "extractPathParameters (c # cs) =
     (if c = CHR ''{''
         \<and> takeWhile (\<lambda>x. x \<noteq> CHR ''}'') cs \<noteq> []
         \<and> dropWhile (\<lambda>x. x \<noteq> CHR ''}'') cs \<noteq> []
      then takeWhile (\<lambda>x. x \<noteq> CHR ''}'') cs
             # extractPathParameters (tl (dropWhile (\<lambda>x. x \<noteq> CHR ''}'') cs))
      else extractPathParameters cs)"
  by pat_completeness auto
termination
proof (relation "measure length")
  fix c :: char and cs :: string
  have "length (dropWhile (\<lambda>x. x \<noteq> CHR ''}'') cs) \<le> length cs"
    by (rule length_dropWhile_le)
  then have "length (tl (dropWhile (\<lambda>x. x \<noteq> CHR ''}'') cs)) \<le> length cs"
    by simp
  then show "(tl (dropWhile (\<lambda>x. x \<noteq> CHR ''}'') cs), c # cs) \<in> measure length"
    by simp
qed simp_all

text \<open>The parameter created for a placeholder that has none yet.\<close>

definition newPathParam :: "string \<Rightarrow> PathParameter" where
  "newPathParam n =
     \<lparr>param_name = n, param_in = ''path'', param_description = [], param_required = True, param_type = ''string'',
      param_format = None, param_enum = None, param_default = None, param_example = None, param_deprecated = None\<rparr>"

definition syncPathParameters :: "PathParameter list \<Rightarrow> string \<Rightarrow> PathParameter list" where
  "syncPathParameters currentParams pathString =
     (let detectedParamNames = extractPathParameters pathString;
          existingPathParams =
            filter (\<lambda>p. param_in p = ''path'' \<and> param_name p \<in> set detectedParamNames) currentParams;
          nonPathParams = filter (\<lambda>p. param_in p \<noteq> ''path'') currentParams;
          existingPathParamNames = map param_name existingPathParams;
          newPathParams =
            map newPathParam
              (filter (\<lambda>n. n \<notin> set existingPathParamNames) detectedParamNames);
          orderedPathParams =
            List.map_filter
              (\<lambda>n. case find (\<lambda>p. param_name p = n) existingPathParams of
                     Some p \<Rightarrow> Some p
                   | None \<Rightarrow> find (\<lambda>p. param_name p = n) newPathParams)
              detectedParamNames
      in orderedPathParams @ nonPathParams)"

text \<open>
  The parameter a placeholder named \<open>n\<close> is expected to receive: the first stored
  path-location parameter of that name, else a fresh one. Used to state the result of
  \<open>syncPathParameters\<close> in closed form.
\<close>

definition paramFor :: "PathParameter list \<Rightarrow> string \<Rightarrow> PathParameter" where
  "paramFor ps n =
     (case find (\<lambda>p. param_in p = ''path'' \<and> param_name p = n) ps of
        Some p \<Rightarrow> p
      | None \<Rightarrow> newPathParam n)"


section \<open>Serializer string formatter (yamlGenerator.ts)\<close>

abbreviation (input) squote :: char where
  "squote \<equiv> CHR 0x27"

abbreviation (input) newline :: char where
  "newline \<equiv> CHR ''\<newline>''"

text \<open>\<^verbatim>\<open>description.replace(/'/g, "''")\<close>\<close>

definition doubleQuotes :: "string \<Rightarrow> string" where
  "doubleQuotes s = concat (map (\<lambda>c. if c = squote then [squote, squote] else [c]) s)"

text \<open>
  \<^verbatim>\<open>formatDescription(description, indent)\<close>. \<^verbatim>\<open>!description\<close> holds of the empty
  string; \<^verbatim>\<open>' '.repeat(indent)\<close> is \<open>indent\<close> spaces.
\<close>

definition formatDescription :: "string \<Rightarrow> nat \<Rightarrow> string" where
  "formatDescription description indent =
     (if description = [] then [squote, squote]
      else if newline \<in> set description then
        (let indentStr = replicate indent CHR '' '';
             lines = js_split newline description
         in ''|'' @ [newline] @ js_join [newline] (map (\<lambda>line. indentStr @ line) lines))
      else [squote] @ doubleQuotes description @ [squote])"

section \<open>Importer: schema references (yamlImporter.ts)\<close>

text \<open>
  The characters the regular expression dot does not match, among the characters of this
  model: line feed and carriage return.
\<close>

definition lineTerminator :: "char \<Rightarrow> bool" where
  "lineTerminator c = (c = CHR 0x0A \<or> c = CHR 0x0D)"

definition schemaRefPrefix :: string where
  "schemaRefPrefix = ''#/components/schemas/''"

text \<open>
  \<^verbatim>\<open>ref.match(/#\/components\/schemas\/(.+)/)\<close>: the pattern is not anchored, so the
  match starts at the first position that holds the literal text followed by at least one
  character the dot accepts; the group is the longest run of such characters. The result
  is the group, or \<open>None\<close> for no match.
\<close>

fun matchSchemaRef :: "string \<Rightarrow> string option" where
  "matchSchemaRef [] = None"
| "matchSchemaRef (c # cs) =
     (if prefix schemaRefPrefix (c # cs)
         \<and> takeWhile (\<lambda>x. \<not> lineTerminator x)
               (drop (length schemaRefPrefix) (c # cs)) \<noteq> []
      then Some (takeWhile (\<lambda>x. \<not> lineTerminator x)
                   (drop (length schemaRefPrefix) (c # cs)))
      else matchSchemaRef cs)"

text \<open>
  \<^verbatim>\<open>extractSchemaRef(ref: string | undefined)\<close>; \<^verbatim>\<open>!ref\<close> holds of undefined and of
  the empty string.
\<close>

definition extractSchemaRef :: "string option \<Rightarrow> string" where
  "extractSchemaRef ref =
     (case ref of
        None \<Rightarrow> []
      | Some r \<Rightarrow>
          (if r = [] then []
           else (case matchSchemaRef r of Some m \<Rightarrow> m | None \<Rightarrow> [])))"

section \<open>Document model\<close>

text \<open>
  The records follow the interfaces of the document model and the fields the serializer,
  the importer and the editing hook read and write. Field names carry a prefix per record.
  An optional field is an option; \<open>None\<close> stands for \<^verbatim>\<open>undefined\<close>.
\<close>

record ResponseHeader =
  header_name :: string
  header_description :: string
  header_schemaType :: string

record PathResponse =
  resp_statusCode :: string
  resp_description :: string
  resp_schemaRef :: string
  resp_contentType :: "string option"
  resp_headers :: "ResponseHeader list option"

record RequestBody =
  rb_description :: string
  rb_required :: bool
  rb_schemaRef :: string
  rb_contentType :: string

record PathOperation =
  op_method :: string
  op_tags :: "string list"
  op_summary :: string
  op_operationId :: string
  op_description :: string
  op_deprecated :: "bool option"
  op_parameters :: "PathParameter list"
  op_responses :: "PathResponse list"
  op_requestBody :: "RequestBody option"
  op_security :: "string list option"

text \<open>
  A stored path is either in the current shape (\<open>path_operations\<close> present) or in the
  legacy flat shape, where the fields of its single operation sit on the path itself.
  Both shapes are one record; a field the stored object lacks is \<open>None\<close>.
\<close>

record SwaggerPath =
  path_path :: string
  path_operations :: "PathOperation list option"
  path_method :: "string option"
  path_tags :: "string list option"
  path_summary :: "string option"
  path_operationId :: "string option"
  path_description :: "string option"
  path_parameters :: "PathParameter list option"
  path_responses :: "PathResponse list option"
  path_requestBody :: "RequestBody option"
  path_security :: "string list option"
  path_deprecated :: "bool option"

record SwaggerContact =
  contact_name :: "string option"
  contact_email :: "string option"
  contact_url :: "string option"

record SwaggerLicense =
  license_name :: string
  license_url :: "string option"

record SwaggerInfo =
  info_title :: string
  info_description :: string
  info_version :: string
  info_termsOfService :: "string option"
  info_contact :: "SwaggerContact option"
  info_license :: "SwaggerLicense option"

record SwaggerServerVariable =
  variable_default :: string
  variable_description :: "string option"
  variable_enum :: "string list option"

record SwaggerServer =
  server_url :: string
  server_description :: string
  server_variables :: "(string \<times> SwaggerServerVariable) list option"

record SwaggerSecurityScheme =
  ss_name :: string
  ss_type :: string
  ss_scheme :: "string option"
  ss_bearerFormat :: "string option"
  ss_in :: "string option"
  ss_apiKeyName :: "string option"

record SwaggerTag =
  tag_name :: string
  tag_description :: string

record PropertyItems =
  items_type :: string
  items_ref :: string

text \<open>
  A JavaScript number as the code can observe it: whether it is falsy (zero or NaN) and
  the text \<^verbatim>\<open>String\<close> and template literals give for it. The code never computes
  with a number and never compares two numbers.
\<close>

datatype jsnumber = JsNumber (num_falsy: bool) (num_text: string)

text \<open>\<open>prop_enumValues\<close> is the raw comma-separated text.\<close>

record SchemaProperty =
  prop_name :: string
  prop_type :: string
  prop_format :: "string option"
  prop_description :: string
  prop_example :: string
  prop_required :: "bool option"
  prop_nullable :: "bool option"
  prop_readOnly :: "bool option"
  prop_writeOnly :: "bool option"
  prop_deprecated :: "bool option"
  prop_pattern :: "string option"
  prop_minLength :: "jsnumber option"
  prop_maxLength :: "jsnumber option"
  prop_minimum :: "jsnumber option"
  prop_maximum :: "jsnumber option"
  prop_default :: "string option"
  prop_ref :: string
  prop_items :: "PropertyItems option"
  prop_enumValues :: string

record SwaggerSchema =
  schema_name :: string
  schema_type :: string
  schema_properties :: "SchemaProperty list"
  schema_isTemplate :: "bool option"

record SwaggerDocument =
  doc_openapi :: string
  doc_info :: SwaggerInfo
  doc_servers :: "SwaggerServer list"
  doc_securitySchemes :: "SwaggerSecurityScheme list"
  doc_tags :: "SwaggerTag list"
  doc_paths :: "SwaggerPath list"
  doc_schemas :: "SwaggerSchema list"

text \<open>JavaScript truthiness of an optional string, and \<^verbatim>\<open>x || dflt\<close>.\<close>

definition truthyStr :: "string option \<Rightarrow> bool" where
  "truthyStr x = (case x of None \<Rightarrow> False | Some s \<Rightarrow> s \<noteq> [])"

definition strOr :: "string option \<Rightarrow> string \<Rightarrow> string" where
  "strOr x dflt = (case x of None \<Rightarrow> dflt | Some s \<Rightarrow> if s = [] then dflt else s)"

definition listOr :: "'a list option \<Rightarrow> 'a list" where
  "listOr x = (case x of None \<Rightarrow> [] | Some xs \<Rightarrow> xs)"

definition truthyBool :: "bool option \<Rightarrow> bool" where
  "truthyBool x = (x = Some True)"

datatype js_error = TypeError

section \<open>Legacy-format migration\<close>

text \<open>
  The path object both migrations build for a legacy path: only \<^verbatim>\<open>path\<close> and
  \<^verbatim>\<open>operations\<close> are set.
\<close>

definition wrappedPath :: "string \<Rightarrow> PathOperation \<Rightarrow> SwaggerPath" where
  "wrappedPath p operation =
     \<lparr>path_path = p, path_operations = Some [operation], path_method = None,
      path_tags = None, path_summary = None, path_operationId = None,
      path_description = None, path_parameters = None, path_responses = None,
      path_requestBody = None, path_security = None, path_deprecated = None\<rparr>"

text \<open>The callback of \<^verbatim>\<open>doc.paths.map\<close> in \<^verbatim>\<open>migrateDocument\<close> (useSwaggerDocument.ts).\<close>

definition migratePath :: "SwaggerPath \<Rightarrow> SwaggerPath" where
  "migratePath path =
     (if path_operations path \<noteq> None then path
      else (case path_method path of
              None \<Rightarrow> path
            | Some method \<Rightarrow>
                if method = [] then path
                else wrappedPath (path_path path)
                  \<lparr>op_method = method,
                   op_tags = listOr (path_tags path),
                   op_summary = strOr (path_summary path) [],
                   op_operationId = strOr (path_operationId path) [],
                   op_description = strOr (path_description path) [],
                   op_deprecated = path_deprecated path,
                   op_parameters = listOr (path_parameters path),
                   op_responses = listOr (path_responses path),
                   op_requestBody = path_requestBody path,
                   op_security = path_security path\<rparr>))"

definition migrateDocument :: "SwaggerDocument \<Rightarrow> SwaggerDocument" where
  "migrateDocument doc = doc\<lparr>doc_paths := map migratePath (doc_paths doc)\<rparr>"

text \<open>The callback of \<^verbatim>\<open>doc.paths.map\<close> in \<^verbatim>\<open>ensureOperationsFormat\<close> (yamlGenerator.ts).\<close>

definition ensureOperationsPath :: "SwaggerPath \<Rightarrow> SwaggerPath" where
  "ensureOperationsPath path =
     (if path_operations path \<noteq> None then path
      else (case path_method path of
              None \<Rightarrow> path
            | Some method \<Rightarrow>
                if method = [] then path
                else wrappedPath (path_path path)
                  \<lparr>op_method = method,
                   op_tags = listOr (path_tags path),
                   op_summary = strOr (path_summary path) [],
                   op_operationId = strOr (path_operationId path) [],
                   op_description = strOr (path_description path) [],
                   op_deprecated = path_deprecated path,
                   op_parameters = listOr (path_parameters path),
                   op_responses = listOr (path_responses path),
                   op_requestBody = path_requestBody path,
                   op_security = path_security path\<rparr>))"

definition ensureOperationsFormat :: "SwaggerDocument \<Rightarrow> SwaggerDocument" where
  "ensureOperationsFormat doc = doc\<lparr>doc_paths := map ensureOperationsPath (doc_paths doc)\<rparr>"

section \<open>Duplicating an operation (useSwaggerDocument.ts)\<close>

definition availableMethods :: "string list" where
  "availableMethods = [''get'', ''post'', ''put'', ''patch'', ''delete'']"

text \<open>
  \<^verbatim>\<open>duplicatePath(pathIndex, operationIndex)\<close> as a function of the document state; the
  state the updater receives is the state the handler read. Reading a property of
  \<^verbatim>\<open>undefined\<close> (an index out of range, a path without an operations array) throws a
  TypeError. Copying a parameter or a response object yields an equal value. \<open>upperChr\<close>
  is the case mapping \<open>generateOperationId\<close> uses.
\<close>

definition duplicatePath ::
    "(char \<Rightarrow> string) \<Rightarrow> SwaggerDocument \<Rightarrow> nat \<Rightarrow> nat \<Rightarrow> js_error + SwaggerDocument" where
  "duplicatePath upperChr document pathIndex operationIndex =
     (if length (doc_paths document) \<le> pathIndex then Inl TypeError
      else
        (let path = doc_paths document ! pathIndex
         in case path_operations path of
              None \<Rightarrow> Inl TypeError
            | Some ops \<Rightarrow>
                (let usedMethods = map op_method ops;
                     nextMethod = find (\<lambda>m. m \<notin> set usedMethods) availableMethods
                 in if length ops \<le> operationIndex then Inl TypeError
                    else
                      (let operation = ops ! operationIndex
                       in case nextMethod of
                            None \<Rightarrow>
                              (let newPath =
                                     wrappedPath (path_path path @ ''_copy'')
                                       (operation
                                          \<lparr>op_operationId := op_operationId operation @ ''_copy'',
                                           op_parameters := map (\<lambda>p. p) (op_parameters operation),
                                           op_responses := map (\<lambda>r. r) (op_responses operation)\<rparr>)
                               in Inr (document\<lparr>doc_paths := doc_paths document @ [newPath]\<rparr>))
                          | Some m \<Rightarrow>
                              (let newOperation =
                                     operation
                                       \<lparr>op_method := m,
                                        op_operationId := generateOperationId upperChr m (path_path path),
                                        op_parameters := map (\<lambda>p. p) (op_parameters operation),
                                        op_responses := map (\<lambda>r. r) (op_responses operation)\<rparr>
                               in Inr (document
                                    \<lparr>doc_paths :=
                                       map (\<lambda>(i, p).
                                              if i \<noteq> pathIndex then p
                                              else p\<lparr>path_operations :=
                                                       Some (listOr (path_operations p) @ [newOperation])\<rparr>)
                                           (enumerate 0 (doc_paths document))\<rparr>))))))"

section \<open>Parsed YAML as JavaScript values\<close>

text \<open>
  What \<^verbatim>\<open>yaml.parse\<close> returns: null, booleans, numbers, strings, arrays and plain
  objects. An object is the list of its own properties in the order
  \<^verbatim>\<open>Object.entries\<close> yields them. \<open>YUndef\<close> is \<^verbatim>\<open>undefined\<close>, the value of a property
  that is not there.
\<close>

datatype yval =
    YUndef
  | YNull
  | YBool bool
  | YNum jsnumber
  | YStr string
  | YSeq "yval list"
  | YMap "(string \<times> yval) list"

fun truthy :: "yval \<Rightarrow> bool" where
  "truthy YUndef = False"
| "truthy YNull = False"
| "truthy (YBool b) = b"
| "truthy (YNum n) = (\<not> num_falsy n)"
| "truthy (YStr s) = (s \<noteq> [])"
| "truthy (YSeq xs) = True"
| "truthy (YMap kvs) = True"

fun nullish :: "yval \<Rightarrow> bool" where
  "nullish YUndef = True"
| "nullish YNull = True"
| "nullish v = False"

text \<open>\<^verbatim>\<open>typeof v === 'object'\<close>\<close>

fun typeofObject :: "yval \<Rightarrow> bool" where
  "typeofObject YNull = True"
| "typeofObject (YSeq xs) = True"
| "typeofObject (YMap kvs) = True"
| "typeofObject v = False"

fun isArray :: "yval \<Rightarrow> bool" where
  "isArray (YSeq xs) = True"
| "isArray v = False"

text \<open>\<^verbatim>\<open>a || b\<close> and \<^verbatim>\<open>a ?? b\<close>\<close>

definition orElse :: "yval \<Rightarrow> yval \<Rightarrow> yval" where
  "orElse a b = (if truthy a then a else b)"

definition nullishOr :: "yval \<Rightarrow> yval \<Rightarrow> yval" where
  "nullishOr a b = (if nullish a then b else a)"

text \<open>
  Decimal digits of a natural number: the text of an array index and of a length, which
  are integers below 4294967296.
\<close>

fun showNat :: "nat \<Rightarrow> string" where
  "showNat n =
     (if n < 10 then [char_of (48 + n)]
      else showNat (n div 10) @ [char_of (48 + n mod 10)])"

definition lengthNumber :: "nat \<Rightarrow> jsnumber" where
  "lengthNumber n = JsNumber (n = 0) (showNat n)"

text \<open>The index properties of an array or a string: \<^verbatim>\<open>"0"\<close>, \<^verbatim>\<open>"1"\<close>, ...\<close>

definition indexed :: "'a list \<Rightarrow> (string \<times> 'a) list" where
  "indexed xs = map (\<lambda>(i, x). (showNat i, x)) (enumerate 0 xs)"

text \<open>
  \<^verbatim>\<open>Object.entries(v)\<close> and \<^verbatim>\<open>Object.keys(v)\<close>; both throw on null and undefined,
  and a number or a boolean has no own properties.
\<close>

fun objectEntries :: "yval \<Rightarrow> js_error + (string \<times> yval) list" where
  "objectEntries YUndef = Inl TypeError"
| "objectEntries YNull = Inl TypeError"
| "objectEntries (YBool b) = Inr []"
| "objectEntries (YNum n) = Inr []"
| "objectEntries (YStr s) = Inr (indexed (map (\<lambda>c. YStr [c]) s))"
| "objectEntries (YSeq xs) = Inr (indexed xs)"
| "objectEntries (YMap kvs) = Inr kvs"

definition objectKeys :: "yval \<Rightarrow> js_error + string list" where
  "objectKeys v = (case objectEntries v of Inl e \<Rightarrow> Inl e | Inr kvs \<Rightarrow> Inr (map fst kvs))"

definition lookupOr :: "(string \<times> yval) list \<Rightarrow> string \<Rightarrow> yval" where
  "lookupOr kvs k = (case map_of kvs k of None \<Rightarrow> YUndef | Some v \<Rightarrow> v)"

text \<open>
  \<^verbatim>\<open>v[k]\<close> for a value that is neither null nor undefined (reading a property of
  null or undefined throws a TypeError: every caller tests \<open>nullish\<close> first). Own properties, the index
  properties and \<^verbatim>\<open>length\<close> are modelled; the names of built-in methods are not (the
  code reads none of them as data).
\<close>

fun propOf :: "yval \<Rightarrow> string \<Rightarrow> yval" where
  "propOf (YMap kvs) k = lookupOr kvs k"
| "propOf (YSeq xs) k =
     (if k = ''length'' then YNum (lengthNumber (length xs)) else lookupOr (indexed xs) k)"
| "propOf (YStr s) k =
     (if k = ''length'' then YNum (lengthNumber (length s))
      else lookupOr (indexed (map (\<lambda>c. YStr [c]) s)) k)"
| "propOf v k = YUndef"

text \<open>\<^verbatim>\<open>v?.k\<close>\<close>

definition optProp :: "yval \<Rightarrow> string \<Rightarrow> yval" where
  "optProp v k = (if nullish v then YUndef else propOf v k)"

text \<open>Sequencing of computations that may throw.\<close>

definition bindE :: "js_error + 'a \<Rightarrow> ('a \<Rightarrow> js_error + 'b) \<Rightarrow> js_error + 'b" where
  "bindE m f = (case m of Inl e \<Rightarrow> Inl e | Inr x \<Rightarrow> f x)"

fun mapE :: "('a \<Rightarrow> js_error + 'b) \<Rightarrow> 'a list \<Rightarrow> js_error + 'b list" where
  "mapE f [] = Inr []"
| "mapE f (x # xs) =
     (case f x of
        Inl e \<Rightarrow> Inl e
      | Inr y \<Rightarrow> (case mapE f xs of Inl e \<Rightarrow> Inl e | Inr ys \<Rightarrow> Inr (y # ys)))"

text \<open>
  \<^verbatim>\<open>String(v)\<close>, and \<^verbatim>\<open>xs.join(sep)\<close> on the elements of an array (null and undefined
  elements give the empty string). An object with an own property \<^verbatim>\<open>toString\<close> has no
  callable conversion, so converting it throws.
\<close>

fun jsString :: "yval \<Rightarrow> js_error + string"
  and jsJoin :: "string \<Rightarrow> yval list \<Rightarrow> js_error + string" where
  "jsString YUndef = Inr ''undefined''"
| "jsString YNull = Inr ''null''"
| "jsString (YBool b) = Inr (if b then ''true'' else ''false'')"
| "jsString (YNum n) = Inr (num_text n)"
| "jsString (YStr s) = Inr s"
| "jsString (YSeq xs) = jsJoin '','' xs"
| "jsString (YMap kvs) =
     (if ''toString'' \<in> set (map fst kvs) then Inl TypeError else Inr ''[object Object]'')"
| "jsJoin sep [] = Inr []"
| "jsJoin sep (x # xs) =
     (case (if nullish x then Inr [] else jsString x) of
        Inl e \<Rightarrow> Inl e
      | Inr s \<Rightarrow>
          (if xs = [] then Inr s
           else (case jsJoin sep xs of Inl e \<Rightarrow> Inl e | Inr rest \<Rightarrow> Inr (s @ sep @ rest))))"

section \<open>Structural validator (openApiValidator.ts)\<close>


abbreviation (input) dquote :: char where
  "dquote \<equiv> CHR 0x22"

definition quoted :: "string \<Rightarrow> string" where
  "quoted s = dquote # s @ [dquote]"

subsection \<open>Line-number locator\<close>

text \<open>
  White space as \<^verbatim>\<open>trim\<close>, \<^verbatim>\<open>trimStart\<close> and \<^verbatim>\<open>\s\<close> see it, among the characters 0
  to 255: tab, line feed, vertical tab, form feed, carriage return, space and the
  no-break space.
\<close>

definition isSpaceChr :: "char \<Rightarrow> bool" where
  "isSpaceChr c =
     (c \<in> set [CHR 0x09, CHR 0x0A, CHR 0x0B, CHR 0x0C, CHR 0x0D, CHR 0x20, CHR 0xA0])"






subsection \<open>Paths\<close>

text \<open>
  \<^verbatim>\<open>pathKey.match(/\{([^}]+)\}/g)\<close>: the matched texts, braces included; \<^verbatim>\<open>null\<close> when
  there is none. \<^verbatim>\<open>param.slice(1, -1)\<close> of a matched text is the name between the braces,
  which is what \<open>extractPathParameters\<close> lists.
\<close>










subsection \<open>Schemas\<close>



subsection \<open>The structural pass and the validator\<close>










section \<open>Importer (yamlImporter.ts)\<close>

text \<open>
  The importer builds its result from the parsed values without checking their types, so
  a field it copies (\<^verbatim>\<open>(p.name as string) || ''\<close>) holds whatever value the document
  had there. Such fields are \<open>yval\<close> in the records of the imported document; the fields
  the importer computes itself are typed.
\<close>

record ImportedSecurityScheme =
  iss_name :: string
  iss_type :: yval
  iss_scheme :: "yval option"
  iss_bearerFormat :: "yval option"
  iss_in :: "yval option"
  iss_apiKeyName :: "yval option"

record ImportedItems =
  iitems_type :: yval
  iitems_ref :: string

record ImportedProperty =
  ip_name :: string
  ip_type :: string
  ip_description :: yval
  ip_example :: string
  ip_required :: bool
  ip_ref :: string
  ip_items :: ImportedItems
  ip_enumValues :: string
  ip_format :: "yval option"

record ImportedSchema =
  isch_name :: string
  isch_type :: yval
  isch_properties :: "ImportedProperty list"

record ImportedParameter =
  iparam_name :: yval
  iparam_in :: yval
  iparam_description :: yval
  iparam_required :: yval
  iparam_type :: string

record ImportedResponse =
  iresp_statusCode :: string
  iresp_description :: yval
  iresp_schemaRef :: string

record ImportedRequestBody =
  irb_description :: yval
  irb_required :: yval
  irb_schemaRef :: string
  irb_contentType :: string

record ImportedOperation =
  iop_method :: string
  iop_tags :: yval
  iop_summary :: yval
  iop_operationId :: yval
  iop_description :: yval
  iop_parameters :: "ImportedParameter list"
  iop_responses :: "ImportedResponse list"
  iop_requestBody :: "ImportedRequestBody option"
  iop_security :: "string list option"

record ImportedPath =
  ipath_path :: string
  ipath_operations :: "ImportedOperation list"

record ImportedInfo =
  iinfo_title :: yval
  iinfo_description :: yval
  iinfo_version :: yval

record ImportedServer =
  iserver_url :: yval
  iserver_description :: yval

record ImportedTag =
  itag_name :: yval
  itag_description :: yval

record ImportedDocument =
  idoc_openapi :: yval
  idoc_info :: ImportedInfo
  idoc_servers :: "ImportedServer list"
  idoc_securitySchemes :: "ImportedSecurityScheme list"
  idoc_tags :: "ImportedTag list"
  idoc_paths :: "ImportedPath list"
  idoc_schemas :: "ImportedSchema list"

record ImportResult =
  ir_success :: bool
  ir_document :: "ImportedDocument option"
  ir_errors :: "string list"
  ir_warnings :: "string list"

text \<open>
  \<^verbatim>\<open>extractSchemaRef(v as string)\<close> on a parsed value: a falsy value gives the empty
  reference, a string is matched, and any other value has no \<^verbatim>\<open>match\<close> method.
\<close>

definition extractSchemaRefV :: "yval \<Rightarrow> js_error + string" where
  "extractSchemaRefV v =
     (if \<not> truthy v then Inr []
      else (case v of YStr s \<Rightarrow> Inr (extractSchemaRef (Some s)) | _ \<Rightarrow> Inl TypeError))"

definition parseSecurityScheme :: "string \<Rightarrow> yval \<Rightarrow> js_error + ImportedSecurityScheme" where
  "parseSecurityScheme name s =
     (if nullish s then Inl TypeError
      else
        (let result = \<lparr>iss_name = name, iss_type = orElse (propOf s ''type'') (YStr ''http''),
                        iss_scheme = None, iss_bearerFormat = None, iss_in = None,
                        iss_apiKeyName = None\<rparr>
         in if propOf s ''type'' = YStr ''http'' then
              Inr (result
                \<lparr>iss_scheme := Some (orElse (propOf s ''scheme'') (YStr ''bearer'')),
                 iss_bearerFormat :=
                   (if truthy (propOf s ''bearerFormat'') then Some (propOf s ''bearerFormat'')
                    else None)\<rparr>)
            else if propOf s ''type'' = YStr ''apiKey'' then
              Inr (result
                \<lparr>iss_in := Some (orElse (propOf s ''in'') (YStr ''header'')),
                 iss_apiKeyName := Some (orElse (propOf s ''name'') (YStr []))\<rparr>)
            else Inr result))"

definition parseSecuritySchemes :: "yval \<Rightarrow> js_error + ImportedSecurityScheme list" where
  "parseSecuritySchemes schemes =
     (if \<not> truthy schemes then Inr []
      else bindE (objectEntries schemes)
             (mapE (\<lambda>(name, scheme). parseSecurityScheme name scheme)))"

text \<open>
  \<^verbatim>\<open>requiredFields.includes(name)\<close>, where \<^verbatim>\<open>requiredFields\<close> is
  \<^verbatim>\<open>s.required || []\<close>: an array is searched for the string, a string is searched for the
  substring, and no other value has the method.
\<close>

definition requiredIncludes :: "yval \<Rightarrow> string \<Rightarrow> js_error + bool" where
  "requiredIncludes requiredFields name =
     (case requiredFields of
        YSeq xs \<Rightarrow> Inr (YStr name \<in> set xs)
      | YStr s \<Rightarrow> Inr (sublist name s)
      | _ \<Rightarrow> Inl TypeError)"

definition propertyTypes :: "string list" where
  "propertyTypes = [''string'', ''number'', ''integer'', ''boolean'', ''array'', ''object'']"

definition parseSchemaProperty :: "string \<Rightarrow> yval \<Rightarrow> yval \<Rightarrow> js_error + ImportedProperty" where
  "parseSchemaProperty name p requiredFields =
     (if nullish p then Inl TypeError
      else
        bindE (if propOf p ''example'' \<noteq> YUndef then jsString (propOf p ''example'') else Inr [])
          (\<lambda>example.
        bindE (requiredIncludes requiredFields name)
          (\<lambda>required.
             let result =
                   \<lparr>ip_name = name, ip_type = [],
                    ip_description = orElse (propOf p ''description'') (YStr []),
                    ip_example = example, ip_required = required, ip_ref = [],
                    ip_items = \<lparr>iitems_type = YStr ''string'', iitems_ref = []\<rparr>,
                    ip_enumValues = [], ip_format = None\<rparr>
             in if truthy (propOf p ''$ref'') then
                  bindE (extractSchemaRefV (propOf p ''$ref''))
                    (\<lambda>r. Inr (result\<lparr>ip_type := ''object'', ip_ref := r\<rparr>))
                else
                  (let propType = propOf p ''type'';
                       result1 =
                         (case propType of
                            YStr t \<Rightarrow> if t \<in> set propertyTypes then result\<lparr>ip_type := t\<rparr> else result
                          | _ \<Rightarrow> result);
                       result2 =
                         (if truthy (propOf p ''format'')
                          then result1\<lparr>ip_format := Some (propOf p ''format'')\<rparr>
                          else result1)
                   in bindE
                        (case propOf p ''enum'' of
                           YSeq xs \<Rightarrow>
                             bindE (jsJoin '', '' xs) (\<lambda>joined. Inr (result2\<lparr>ip_enumValues := joined\<rparr>))
                         | _ \<Rightarrow> Inr result2)
                        (\<lambda>result3.
                           if propType = YStr ''array'' \<and> truthy (propOf p ''items'') then
                             (let items = propOf p ''items''
                              in if truthy (propOf items ''$ref'') then
                                   bindE (extractSchemaRefV (propOf items ''$ref''))
                                     (\<lambda>r. Inr (result3
                                        \<lparr>ip_items := \<lparr>iitems_type = YStr ''object'', iitems_ref = r\<rparr>\<rparr>))
                                 else
                                   Inr (result3
                                     \<lparr>ip_items :=
                                        \<lparr>iitems_type = orElse (propOf items ''type'') (YStr ''string''),
                                         iitems_ref = []\<rparr>\<rparr>))
                           else Inr result3)))))"

definition parseSchema :: "string \<Rightarrow> yval \<Rightarrow> js_error + ImportedSchema" where
  "parseSchema name s =
     (if nullish s then Inl TypeError
      else
        (let requiredFields = orElse (propOf s ''required'') (YSeq []);
             result = \<lparr>isch_name = name, isch_type = orElse (propOf s ''type'') (YStr ''object''),
                       isch_properties = []\<rparr>
         in if truthy (propOf s ''properties'') \<and> typeofObject (propOf s ''properties'') then
              bindE (objectEntries (propOf s ''properties''))
                (\<lambda>props.
                   bindE (mapE (\<lambda>(propName, propDef).
                                  parseSchemaProperty propName propDef requiredFields) props)
                     (\<lambda>properties. Inr (result\<lparr>isch_properties := properties\<rparr>)))
            else Inr result))"

definition parseSchemas :: "yval \<Rightarrow> js_error + ImportedSchema list" where
  "parseSchemas schemas =
     (if \<not> truthy schemas then Inr []
      else bindE (objectEntries schemas) (mapE (\<lambda>(name, schema). parseSchema name schema)))"

definition parseParameter :: "yval \<Rightarrow> js_error + ImportedParameter" where
  "parseParameter p =
     (if nullish p then Inl TypeError
      else
        (let schema = propOf p ''schema''
         in bindE (if truthy (optProp schema ''type'') then jsString (propOf schema ''type'')
                   else Inr ''string'')
              (\<lambda>t. Inr \<lparr>iparam_name = orElse (propOf p ''name'') (YStr []),
                         iparam_in = orElse (propOf p ''in'') (YStr ''path''),
                         iparam_description = orElse (propOf p ''description'') (YStr []),
                         iparam_required = nullishOr (propOf p ''required'') (YBool False),
                         iparam_type = t\<rparr>)))"

definition parseParameters :: "yval \<Rightarrow> js_error + ImportedParameter list" where
  "parseParameters params =
     (case params of
        YSeq ps \<Rightarrow> mapE parseParameter ps
      | _ \<Rightarrow> Inr [])"

text \<open>
  The loop over the three content types in \<^verbatim>\<open>parseResponses\<close>: the first content type
  whose media type carries a schema with a truthy \<^verbatim>\<open>$ref\<close> decides, and the loop ends
  there.
\<close>

fun responseSchemaRef :: "yval \<Rightarrow> string list \<Rightarrow> js_error + string" where
  "responseSchemaRef content [] = Inr []"
| "responseSchemaRef content (ct # cts) =
     (let mediaType = propOf content ct
      in if truthy mediaType \<and> truthy (propOf mediaType ''schema'')
            \<and> truthy (propOf (propOf mediaType ''schema'') ''$ref'')
         then extractSchemaRefV (propOf (propOf mediaType ''schema'') ''$ref'')
         else responseSchemaRef content cts)"

definition parseResponse :: "string \<Rightarrow> yval \<Rightarrow> js_error + ImportedResponse" where
  "parseResponse statusCode r =
     (if nullish r then Inl TypeError
      else
        bindE (if truthy (propOf r ''content'') \<and> typeofObject (propOf r ''content'')
               then responseSchemaRef (propOf r ''content'')
                      [''application/json'', ''application/vnd.api+json'', ''*/*'']
               else Inr [])
          (\<lambda>schemaRef.
             Inr \<lparr>iresp_statusCode = statusCode,
                  iresp_description = orElse (propOf r ''description'') (YStr []),
                  iresp_schemaRef = schemaRef\<rparr>))"

definition parseResponses :: "yval \<Rightarrow> js_error + ImportedResponse list" where
  "parseResponses responses =
     (if \<not> truthy responses then Inr []
      else bindE (objectEntries responses)
             (mapE (\<lambda>(statusCode, response). parseResponse statusCode response)))"

definition parseRequestBody :: "yval \<Rightarrow> js_error + ImportedRequestBody option" where
  "parseRequestBody requestBody =
     (if \<not> truthy requestBody then Inr None
      else
        bindE
          (if truthy (propOf requestBody ''content'') \<and> typeofObject (propOf requestBody ''content'')
           then bindE (objectEntries (propOf requestBody ''content''))
                  (\<lambda>entries.
                     case entries of
                       [] \<Rightarrow> Inr ([], ''application/json'')
                     | (contentType, mediaType) # rest \<Rightarrow>
                         if nullish mediaType then Inl TypeError
                         else if truthy (propOf mediaType ''schema'')
                                 \<and> truthy (propOf (propOf mediaType ''schema'') ''$ref'')
                         then bindE (extractSchemaRefV (propOf (propOf mediaType ''schema'') ''$ref''))
                                (\<lambda>schemaRef. Inr (schemaRef, contentType))
                         else Inr ([], contentType))
           else Inr ([], ''application/json''))
          (\<lambda>(schemaRef, contentType).
             Inr (Some \<lparr>irb_description = orElse (propOf requestBody ''description'') (YStr []),
                        irb_required = nullishOr (propOf requestBody ''required'') (YBool True),
                        irb_schemaRef = schemaRef,
                        irb_contentType = contentType\<rparr>)))"

definition httpMethods :: "string list" where
  "httpMethods = [''get'', ''post'', ''put'', ''delete'', ''patch'', ''options'', ''head'', ''trace'']"

text \<open>
  The scheme names an operation requires:
  \<^verbatim>\<open>securityToUse ? securityToUse.flatMap((s) => Object.keys(s)) : []\<close> with
  \<^verbatim>\<open>securityToUse = operationSecurity ?? globalSecurity\<close>. Only an array has
  \<^verbatim>\<open>flatMap\<close>.
\<close>

definition resolveSecurity :: "yval \<Rightarrow> yval \<Rightarrow> js_error + string list" where
  "resolveSecurity operationSecurity globalSecurity =
     (let securityToUse = nullishOr operationSecurity globalSecurity
      in if truthy securityToUse then
           (case securityToUse of
              YSeq xs \<Rightarrow> bindE (mapE objectKeys xs) (\<lambda>kss. Inr (concat kss))
            | _ \<Rightarrow> Inl TypeError)
         else Inr [])"

text \<open>The body of the inner loop of \<^verbatim>\<open>parsePaths\<close> for a method the path item has.\<close>

definition parseOperation :: "yval \<Rightarrow> string \<Rightarrow> yval \<Rightarrow> js_error + ImportedOperation" where
  "parseOperation globalSecurity method operation =
     bindE (resolveSecurity (propOf operation ''security'') globalSecurity)
       (\<lambda>security.
     bindE (parseParameters (propOf operation ''parameters''))
       (\<lambda>parameters.
     bindE (parseResponses (propOf operation ''responses''))
       (\<lambda>responses.
     bindE (parseRequestBody (propOf operation ''requestBody''))
       (\<lambda>requestBody.
          Inr \<lparr>iop_method = method,
               iop_tags = orElse (propOf operation ''tags'') (YSeq []),
               iop_summary = orElse (propOf operation ''summary'') (YStr []),
               iop_operationId = orElse (propOf operation ''operationId'') (YStr []),
               iop_description = orElse (propOf operation ''description'') (YStr []),
               iop_parameters = parameters,
               iop_responses = responses,
               iop_requestBody = requestBody,
               iop_security = (if security \<noteq> [] then Some security else None)\<rparr>))))"

text \<open>The operations of one path item, in the order of \<open>httpMethods\<close>.\<close>

definition parsePathItem :: "yval \<Rightarrow> yval \<Rightarrow> js_error + ImportedOperation list" where
  "parsePathItem globalSecurity pathItem =
     (if nullish pathItem then Inl TypeError
      else
        bindE (mapE (\<lambda>method.
                       if truthy (propOf pathItem method)
                       then bindE (parseOperation globalSecurity method (propOf pathItem method))
                              (\<lambda>operation. Inr [operation])
                       else Inr [])
                 httpMethods)
          (\<lambda>ops. Inr (concat ops)))"

definition parsePaths :: "yval \<Rightarrow> yval \<Rightarrow> js_error + ImportedPath list" where
  "parsePaths paths globalSecurity =
     (if \<not> truthy paths then Inr []
      else
        bindE (objectEntries paths)
          (\<lambda>entries.
             bindE (mapE (\<lambda>(pathKey, pathItem).
                            bindE (parsePathItem globalSecurity pathItem)
                              (\<lambda>operations.
                                 Inr (if operations \<noteq> []
                                      then [\<lparr>ipath_path = pathKey, ipath_operations = operations\<rparr>]
                                      else [])))
                      entries)
               (\<lambda>result. Inr (concat result))))"

text \<open>\<^verbatim>\<open>(v || []).map(f)\<close>: only an array has \<^verbatim>\<open>map\<close>.\<close>

definition mapArray :: "(yval \<Rightarrow> js_error + 'a) \<Rightarrow> yval \<Rightarrow> js_error + 'a list" where
  "mapArray f v =
     (case orElse v (YSeq []) of
        YSeq xs \<Rightarrow> mapE f xs
      | _ \<Rightarrow> Inl TypeError)"

definition parseServer :: "yval \<Rightarrow> js_error + ImportedServer" where
  "parseServer s =
     (if nullish s then Inl TypeError
      else Inr \<lparr>iserver_url = orElse (propOf s ''url'') (YStr []),
                iserver_description = orElse (propOf s ''description'') (YStr [])\<rparr>)"

definition parseTag :: "yval \<Rightarrow> js_error + ImportedTag" where
  "parseTag t =
     (if nullish t then Inl TypeError
      else Inr \<lparr>itag_name = orElse (propOf t ''name'') (YStr []),
                itag_description = orElse (propOf t ''description'') (YStr [])\<rparr>)"

definition unsupportedComponents :: "string list" where
  "unsupportedComponents =
     [''responses'', ''parameters'', ''examples'', ''requestBodies'', ''headers'', ''links'',
      ''callbacks'']"

definition componentWarnings :: "yval \<Rightarrow> string list" where
  "componentWarnings components =
     (if truthy components then
        map (\<lambda>comp. ''Component '' @ quoted comp
                      @ '' is not fully supported and may not be imported correctly'')
          (filter (\<lambda>comp. truthy (propOf components comp)) unsupportedComponents)
      else [])"

text \<open>
  \<^verbatim>\<open>importYamlDocument\<close>. \<open>parse\<close> stands for \<^verbatim>\<open>yaml.parse\<close>, with \<open>Inl\<close> for the
  message of the error it throws (caught by the \<^verbatim>\<open>try\<close>). \<open>Inl TypeError\<close> is an
  exception that leaves the function.
\<close>

definition importYamlDocument :: "(string \<Rightarrow> string + yval) \<Rightarrow> string \<Rightarrow> js_error + ImportResult" where
  "importYamlDocument parse yamlContent =
     (case parse yamlContent of
        Inl message \<Rightarrow>
          Inr \<lparr>ir_success = False, ir_document = None,
               ir_errors = [''YAML Parse Error: '' @ message], ir_warnings = []\<rparr>
      | Inr parsed \<Rightarrow>
          if \<not> truthy parsed \<or> \<not> typeofObject parsed then
            Inr \<lparr>ir_success = False, ir_document = None,
                 ir_errors = [''Invalid document: must be an object''], ir_warnings = []\<rparr>
          else
            (let errors = (if \<not> truthy (propOf parsed ''openapi'')
                           then [''Missing required field: openapi''] else []);
                 warnings1 = (if \<not> truthy (optProp (propOf parsed ''info'') ''title'')
                              then [''Missing info.title - will be empty''] else []);
                 info = \<lparr>iinfo_title = orElse (optProp (propOf parsed ''info'') ''title'') (YStr []),
                         iinfo_description =
                           orElse (optProp (propOf parsed ''info'') ''description'') (YStr []),
                         iinfo_version =
                           orElse (optProp (propOf parsed ''info'') ''version'') (YStr ''1.0.0'')\<rparr>
             in bindE (mapArray parseServer (propOf parsed ''servers''))
                  (\<lambda>servers.
                bindE (mapArray parseTag (propOf parsed ''tags''))
                  (\<lambda>tags.
                bindE (parseSecuritySchemes (optProp (propOf parsed ''components'') ''securitySchemes''))
                  (\<lambda>securitySchemes.
                bindE (parseSchemas (optProp (propOf parsed ''components'') ''schemas''))
                  (\<lambda>schemas.
                bindE (parsePaths (propOf parsed ''paths'') (propOf parsed ''security''))
                  (\<lambda>paths.
                     let warnings = warnings1 @ componentWarnings (propOf parsed ''components'');
                         document =
                           \<lparr>idoc_openapi = orElse (propOf parsed ''openapi'') (YStr ''3.0.0''),
                            idoc_info = info, idoc_servers = servers,
                            idoc_securitySchemes = securitySchemes, idoc_tags = tags,
                            idoc_paths = paths, idoc_schemas = schemas\<rparr>
                     in Inr \<lparr>ir_success = (errors = []), ir_document = Some document,
                             ir_errors = errors, ir_warnings = warnings\<rparr>)))))))"

section \<open>Serializer (yamlGenerator.ts)\<close>

text \<open>One line of output: the text and a line break.\<close>

definition ln :: "string \<Rightarrow> string" where
  "ln s = s @ [newline]"

text \<open>The line \<open>prefix value\<close> when the optional string is truthy, nothing otherwise.\<close>

definition optLine :: "string \<Rightarrow> string option \<Rightarrow> string" where
  "optLine pfx x = (if truthyStr x then ln (pfx @ strOr x []) else [])"

definition showBool :: "bool \<Rightarrow> string" where
  "showBool b = (if b then ''true'' else ''false'')"

text \<open>\<^verbatim>\<open>s.trim()\<close> and \<^verbatim>\<open>s.split(',').map((v) => v.trim()).filter((v) => v !== '')\<close>\<close>

definition trim :: "string \<Rightarrow> string" where
  "trim s = rev (dropWhile isSpaceChr (rev (dropWhile isSpaceChr s)))"

definition enumArray :: "string \<Rightarrow> string list" where
  "enumArray s = filter (\<lambda>v. v \<noteq> []) (map trim (js_split CHR '','' s))"

definition refLine :: "string \<Rightarrow> string \<Rightarrow> string" where
  "refLine indentStr schemaName =
     ln (indentStr @ ''$ref: '' @ [squote] @ ''#/components/schemas/'' @ schemaName @ [squote])"

definition emitInfo :: "SwaggerInfo \<Rightarrow> string" where
  "emitInfo info =
     ln ''info:''
     @ ln (''  title: '' @ info_title info)
     @ ln (''  description: '' @ formatDescription (info_description info) 4)
     @ ln (''  version: '' @ quoted (info_version info))
     @ optLine ''  termsOfService: '' (info_termsOfService info)
     @ (case info_contact info of
          None \<Rightarrow> []
        | Some contact \<Rightarrow>
            if truthyStr (contact_name contact) \<or> truthyStr (contact_email contact)
               \<or> truthyStr (contact_url contact)
            then ln ''  contact:''
                 @ optLine ''    name: '' (contact_name contact)
                 @ optLine ''    email: '' (contact_email contact)
                 @ optLine ''    url: '' (contact_url contact)
            else [])
     @ (case info_license info of
          None \<Rightarrow> []
        | Some license \<Rightarrow>
            if license_name license \<noteq> []
            then ln ''  license:''
                 @ ln (''    name: '' @ license_name license)
                 @ optLine ''    url: '' (license_url license)
            else [])"

definition emitServer :: "SwaggerServer \<Rightarrow> string" where
  "emitServer server =
     ln (''  - url: '' @ server_url server)
     @ (if server_description server \<noteq> []
        then ln (''    description: '' @ formatDescription (server_description server) 6)
        else [])"

definition emitTag :: "SwaggerTag \<Rightarrow> string" where
  "emitTag tag =
     ln (''  - name: '' @ tag_name tag)
     @ ln (''    description: '' @ formatDescription (tag_description tag) 6)"

definition emitParameter :: "PathParameter \<Rightarrow> string" where
  "emitParameter param =
     ln (''        - name: '' @ param_name param)
     @ ln (''          in: '' @ param_in param)
     @ ln (''          description: '' @ formatDescription (param_description param) 12)
     @ ln (''          required: '' @ showBool (param_required param))
     @ (if truthyBool (param_deprecated param) then ln ''          deprecated: true'' else [])
     @ ln ''          schema:''
     @ ln (''            type: '' @ param_type param)
     @ optLine ''            format: '' (param_format param)
     @ (if truthyStr (param_enum param) \<and> enumArray (strOr (param_enum param) []) \<noteq> []
        then ln ''            enum:''
             @ concat (map (\<lambda>enumValue. ln (''              - '' @ enumValue))
                         (enumArray (strOr (param_enum param) [])))
        else [])
     @ optLine ''            default: '' (param_default param)
     @ optLine ''          example: '' (param_example param)"

definition emitRequestBody :: "RequestBody \<Rightarrow> string" where
  "emitRequestBody requestBody =
     ln ''      requestBody:''
     @ (if rb_description requestBody \<noteq> []
        then ln (''        description: '' @ formatDescription (rb_description requestBody) 10)
        else [])
     @ ln (''        required: '' @ showBool (rb_required requestBody))
     @ ln ''        content:''
     @ ln (''          ''
           @ (if rb_contentType requestBody \<noteq> [] then rb_contentType requestBody
              else ''application/json'')
           @ '':'')
     @ ln ''            schema:''
     @ (if rb_schemaRef requestBody \<noteq> []
        then refLine ''              '' (rb_schemaRef requestBody)
        else ln ''              type: object'')"

definition emitResponse :: "PathResponse \<Rightarrow> string" where
  "emitResponse resp =
     ln (''        '' @ [squote] @ resp_statusCode resp @ [squote] @ '':'')
     @ ln (''          description: '' @ formatDescription (resp_description resp) 12)
     @ ln ''          content:''
     @ ln ''            application/vnd.api+json:''
     @ ln ''              schema:''
     @ (if resp_schemaRef resp \<noteq> []
        then refLine ''                '' (resp_schemaRef resp)
        else ln ''                type: object'')"

definition emitOperation :: "PathOperation \<Rightarrow> string" where
  "emitOperation operation =
     ln (''    '' @ op_method operation @ '':'')
     @ (if op_tags operation \<noteq> []
        then ln ''      tags:''
             @ concat (map (\<lambda>tag. ln (''        - '' @ tag)) (op_tags operation))
        else [])
     @ ln (''      summary: '' @ op_summary operation)
     @ ln (''      operationId: '' @ op_operationId operation)
     @ ln (''      description: '' @ formatDescription (op_description operation) 8)
     @ (if truthyBool (op_deprecated operation) then ln ''      deprecated: true'' else [])
     @ (if op_parameters operation \<noteq> []
        then ln ''      parameters:'' @ concat (map emitParameter (op_parameters operation))
        else [])
     @ (case op_requestBody operation of
          None \<Rightarrow> []
        | Some requestBody \<Rightarrow> emitRequestBody requestBody)
     @ (if op_responses operation \<noteq> []
        then ln ''      responses:'' @ concat (map emitResponse (op_responses operation))
        else [])"

text \<open>
  A path of the migrated document. \<^verbatim>\<open>path.operations.forEach\<close> throws when the path has
  no operations array (a stored path with neither operations nor method).
\<close>

definition emitPath :: "SwaggerPath \<Rightarrow> js_error + string" where
  "emitPath path =
     (case path_operations path of
        None \<Rightarrow> Inl TypeError
      | Some operations \<Rightarrow>
          Inr (ln (''  '' @ [squote] @ path_path path @ [squote] @ '':'')
               @ concat (map emitOperation operations)))"

definition emitSecurityScheme :: "SwaggerSecurityScheme \<Rightarrow> string" where
  "emitSecurityScheme scheme =
     ln (''    '' @ ss_name scheme @ '':'')
     @ ln (''      type: '' @ ss_type scheme)
     @ (if ss_type scheme = ''http'' then
          ln (''      scheme: '' @ strOr (ss_scheme scheme) ''bearer'')
          @ (if ss_scheme scheme = Some ''bearer'' then optLine ''      bearerFormat: '' (ss_bearerFormat scheme)
             else [])
        else if ss_type scheme = ''apiKey'' then
          ln (''      in: '' @ strOr (ss_in scheme) ''header'')
          @ ln (''      name: '' @ strOr (ss_apiKeyName scheme) ''X-API-Key'')
        else [])"

definition optNumLine :: "string \<Rightarrow> jsnumber option \<Rightarrow> string" where
  "optNumLine pfx x = (case x of None \<Rightarrow> [] | Some n \<Rightarrow> ln (pfx @ num_text n))"

definition emitProperty :: "SchemaProperty \<Rightarrow> string" where
  "emitProperty p =
     ln (''        '' @ prop_name p @ '':'')
     @ (if prop_type p = ''object'' \<and> prop_ref p \<noteq> [] then
          refLine ''          '' (prop_ref p)
        else if prop_type p = ''array'' then
          ln ''          type: array''
          @ ln ''          items:''
          @ (case prop_items p of
               None \<Rightarrow> ln (''            type: '' @ ''string'')
             | Some items \<Rightarrow>
                 if items_ref items \<noteq> [] then refLine ''            '' (items_ref items)
                 else ln (''            type: ''
                          @ (if items_type items \<noteq> [] then items_type items else ''string'')))
          @ (if prop_description p \<noteq> []
             then ln (''          description: '' @ formatDescription (prop_description p) 10)
             else [])
        else
          ln (''          type: '' @ prop_type p)
          @ optLine ''          format: '' (prop_format p)
          @ (if truthyBool (prop_nullable p) then ln ''          nullable: true'' else [])
          @ (if truthyBool (prop_deprecated p) then ln ''          deprecated: true'' else [])
          @ (if truthyBool (prop_readOnly p) then ln ''          readOnly: true'' else [])
          @ (if truthyBool (prop_writeOnly p) then ln ''          writeOnly: true'' else [])
          @ optLine ''          default: '' (prop_default p)
          @ (if truthyStr (prop_pattern p)
             then ln (''          pattern: '' @ [squote] @ strOr (prop_pattern p) [] @ [squote])
             else [])
          @ (if prop_type p = ''string''
             then optNumLine ''          minLength: '' (prop_minLength p)
                  @ optNumLine ''          maxLength: '' (prop_maxLength p)
             else [])
          @ (if prop_type p = ''number'' \<or> prop_type p = ''integer''
             then optNumLine ''          minimum: '' (prop_minimum p)
                  @ optNumLine ''          maximum: '' (prop_maximum p)
             else [])
          @ (if enumArray (prop_enumValues p) \<noteq> []
             then ln ''          enum:''
                  @ concat (map (\<lambda>enumValue. ln (''            - '' @ enumValue))
                              (enumArray (prop_enumValues p)))
             else [])
          @ (if prop_description p \<noteq> []
             then ln (''          description: '' @ formatDescription (prop_description p) 10)
             else [])
          @ (if prop_example p \<noteq> [] then ln (''          example: '' @ prop_example p) else []))"

definition emitSchema :: "SwaggerSchema \<Rightarrow> string" where
  "emitSchema schema =
     ln (''    '' @ schema_name schema @ '':'')
     @ ln (''      type: '' @ schema_type schema)
     @ (if schema_properties schema \<noteq> []
        then ln ''      properties:'' @ concat (map emitProperty (schema_properties schema))
        else [])"

text \<open>
  \<^verbatim>\<open>buildYamlDocument\<close>: the legacy migration first, then the sections in order, each only
  when it is not empty.
\<close>

definition buildYamlDocument :: "SwaggerDocument \<Rightarrow> js_error + string" where
  "buildYamlDocument doc =
     (let migratedDoc = ensureOperationsFormat doc;
          hasSchemas = (doc_schemas migratedDoc \<noteq> []);
          hasSecuritySchemes = (doc_securitySchemes migratedDoc \<noteq> [])
      in bindE (mapE emitPath (doc_paths migratedDoc))
           (\<lambda>pathTexts.
              Inr (ln (''openapi: '' @ doc_openapi migratedDoc)
                   @ emitInfo (doc_info migratedDoc)
                   @ (if doc_servers migratedDoc \<noteq> []
                      then ln ''servers:'' @ concat (map emitServer (doc_servers migratedDoc))
                      else [])
                   @ (if doc_tags migratedDoc \<noteq> []
                      then ln ''tags:'' @ concat (map emitTag (doc_tags migratedDoc))
                      else [])
                   @ (if doc_paths migratedDoc \<noteq> []
                      then ln ''paths:'' @ concat pathTexts
                      else [])
                   @ (if hasSchemas \<or> hasSecuritySchemes
                      then ln ''components:''
                           @ (if hasSecuritySchemes
                              then ln ''  securitySchemes:''
                                   @ concat (map emitSecurityScheme (doc_securitySchemes migratedDoc))
                              else [])
                           @ (if hasSchemas
                              then ln ''  schemas:''
                                   @ concat (map emitSchema (doc_schemas migratedDoc))
                              else [])
                      else [])
                   @ (if hasSecuritySchemes
                      then ln ''security:''
                           @ concat (map (\<lambda>scheme. ln (''  - '' @ ss_name scheme @ '': []''))
                                       (doc_securitySchemes doc))
                      else []))))"

section \<open>Round trip\<close>

text \<open>\<^verbatim>\<open>importYamlDocument(buildYamlDocument(D))\<close>\<close>

definition roundTrip :: "(string \<Rightarrow> string + yval) \<Rightarrow> SwaggerDocument \<Rightarrow> js_error + ImportResult" where
  "roundTrip parse doc = bindE (buildYamlDocument doc) (importYamlDocument parse)"

text \<open>
  The fields of a document the serializer never reads: the \<^verbatim>\<open>required\<close> flag of a schema
  property, the security list of an operation (and of a legacy path), and the
  \<^verbatim>\<open>isTemplate\<close> flag of a schema. \<open>eraseUnwritten\<close> clears them.
\<close>

definition eraseProperty :: "SchemaProperty \<Rightarrow> SchemaProperty" where
  "eraseProperty p = p\<lparr>prop_required := None\<rparr>"

definition eraseSchema :: "SwaggerSchema \<Rightarrow> SwaggerSchema" where
  "eraseSchema schema =
     schema\<lparr>schema_properties := map eraseProperty (schema_properties schema),
            schema_isTemplate := None\<rparr>"

definition eraseOperation :: "PathOperation \<Rightarrow> PathOperation" where
  "eraseOperation operation = operation\<lparr>op_security := None\<rparr>"

definition erasePath :: "SwaggerPath \<Rightarrow> SwaggerPath" where
  "erasePath path =
     path\<lparr>path_operations := map_option (map eraseOperation) (path_operations path),
          path_security := None\<rparr>"

definition eraseUnwritten :: "SwaggerDocument \<Rightarrow> SwaggerDocument" where
  "eraseUnwritten doc =
     doc\<lparr>doc_paths := map erasePath (doc_paths doc),
         doc_schemas := map eraseSchema (doc_schemas doc)\<rparr>"

text \<open>
  The fields the specification lists as lost on the way through serializer and importer:
  the enum text of a property comes back as the trimmed values joined by comma and blank,
  and the \<^verbatim>\<open>isTemplate\<close> flag is not reconstructed. \<open>normalizeLossy\<close> maps a
  document to its normal form for these two.
\<close>

definition normalizeLossyProperty :: "SchemaProperty \<Rightarrow> SchemaProperty" where
  "normalizeLossyProperty p = p\<lparr>prop_enumValues := js_join '', '' (enumArray (prop_enumValues p))\<rparr>"

definition normalizeLossy :: "SwaggerDocument \<Rightarrow> SwaggerDocument" where
  "normalizeLossy doc =
     doc\<lparr>doc_schemas :=
           map (\<lambda>schema. schema\<lparr>schema_properties := map normalizeLossyProperty (schema_properties schema),
                                 schema_isTemplate := None\<rparr>)
               (doc_schemas doc)\<rparr>"

section \<open>Example values\<close>

text \<open>Concrete documents and paths at which the theorems below are instantiated.\<close>

definition exInfo :: SwaggerInfo where
  "exInfo = \<lparr>info_title = ''Shop'', info_description = [], info_version = ''1.0.0'',
             info_termsOfService = None, info_contact = None, info_license = None\<rparr>"

definition exResponse :: PathResponse where
  "exResponse = \<lparr>resp_statusCode = ''200'', resp_description = ''OK'', resp_schemaRef = [],
                 resp_contentType = None, resp_headers = None\<rparr>"

definition exLegacyPath :: SwaggerPath where
  "exLegacyPath =
     \<lparr>path_path = ''/items'', path_operations = None, path_method = Some ''get'',
      path_tags = None, path_summary = Some ''List items'', path_operationId = None,
      path_description = None, path_parameters = None, path_responses = Some [exResponse],
      path_requestBody = None, path_security = None, path_deprecated = None\<rparr>"

definition exOperation :: "string \<Rightarrow> PathOperation" where
  "exOperation method =
     \<lparr>op_method = method, op_tags = [], op_summary = ''List items'',
      op_operationId = method @ ''Items'', op_description = [], op_deprecated = None,
      op_parameters = [], op_responses = [exResponse], op_requestBody = None,
      op_security = None\<rparr>"

definition exPath :: "string list \<Rightarrow> SwaggerPath" where
  "exPath methods =
     \<lparr>path_path = ''/items'', path_operations = Some (map exOperation methods),
      path_method = None, path_tags = None, path_summary = None, path_operationId = None,
      path_description = None, path_parameters = None, path_responses = None,
      path_requestBody = None, path_security = None, path_deprecated = None\<rparr>"

definition exDocument :: "SwaggerPath list \<Rightarrow> SwaggerDocument" where
  "exDocument paths =
     \<lparr>doc_openapi = ''3.0.0'', doc_info = exInfo, doc_servers = [], doc_securitySchemes = [],
      doc_tags = [], doc_paths = paths, doc_schemas = []\<rparr>"

text \<open>A document with one schema whose single property carries the given \<^verbatim>\<open>required\<close> flag.\<close>

definition exProperty :: "bool option \<Rightarrow> SchemaProperty" where
  "exProperty req =
     \<lparr>prop_name = ''id'', prop_type = ''string'', prop_format = None, prop_description = [],
      prop_example = [], prop_required = req, prop_nullable = None, prop_readOnly = None,
      prop_writeOnly = None, prop_deprecated = None, prop_pattern = None,
      prop_minLength = None, prop_maxLength = None, prop_minimum = None,
      prop_maximum = None, prop_default = None, prop_ref = [],
      prop_items = Some \<lparr>items_type = ''string'', items_ref = []\<rparr>, prop_enumValues = []\<rparr>"

definition exSchemaDocument :: "bool option \<Rightarrow> SwaggerDocument" where
  "exSchemaDocument req =
     (exDocument [])
       \<lparr>doc_schemas :=
          [\<lparr>schema_name = ''Item'', schema_type = ''object'',
            schema_properties = [exProperty req], schema_isTemplate = None\<rparr>]\<rparr>"





section \<open>Verified properties\<close>

subsection \<open>Splitting and joining\<close>

lemma js_split_nonempty: "js_split c s \<noteq> []"
  by (induction s) (auto split: list.splits)

lemma js_split_no_sep: "x \<in> set (js_split c s) \<Longrightarrow> c \<notin> set x"
  by (induction s arbitrary: x) (auto split: list.splits if_splits)

lemma js_split_Cons_sep: "js_split c (c # s) = [] # js_split c s"
  by simp

lemma js_split_append_nosep:
  "c \<notin> set a \<Longrightarrow> js_split c (a @ s) = (a @ hd (js_split c s)) # tl (js_split c s)"
  using js_split_nonempty [of c s]
  by (induction a) (auto split: list.splits)

lemma js_split_append_sep:
  "c \<notin> set a \<Longrightarrow> js_split c (a @ c # s) = a # js_split c s"
  by (simp add: js_split_append_nosep)

lemma js_split_nosep: "c \<notin> set a \<Longrightarrow> js_split c a = [a]"
  using js_split_append_nosep [of c a "[]"] by simp

lemma js_join_Cons: "xs \<noteq> [] \<Longrightarrow> js_join sep (x # xs) = x @ sep @ js_join sep xs"
  by (cases xs) simp_all

lemma js_split_join:
  "xs \<noteq> [] \<Longrightarrow> \<forall>x\<in>set xs. c \<notin> set x \<Longrightarrow> js_split c (js_join [c] xs) = xs"
proof (induction xs)
  case Nil
  then show ?case by simp
next
  case (Cons x xs)
  show ?case
  proof (cases xs)
    case Nil
    then show ?thesis using Cons.prems by (simp add: js_split_nosep)
  next
    case (Cons y ys)
    then have "js_split c (js_join [c] xs) = xs" using Cons.IH Cons.prems by simp
    then show ?thesis using Cons Cons.prems by (simp add: js_split_append_sep)
  qed
qed

lemma js_join_push: "js_join sep ((x # a) # rest) = x # js_join sep (a # rest)"
  by (cases rest) simp_all

lemma js_join_split: "js_join [c] (js_split c s) = s"
proof (induction s)
  case Nil
  then show ?case by simp
next
  case (Cons x s)
  then show ?case
    using js_split_nonempty [of c s]
    by (cases "js_split c s") (auto simp: js_join_Cons js_join_push split: list.splits)
qed

lemma newline_join_concat:
  "xs \<noteq> [] \<Longrightarrow> c # js_join [c] xs = concat (map (\<lambda>l. c # l) xs)"
  by (induction "[c]" xs rule: js_join.induct) simp_all

subsection \<open>Computations that may throw\<close>

lemma bindE_Inr_iff: "bindE m f = Inr y \<longleftrightarrow> (\<exists>x. m = Inr x \<and> f x = Inr y)"
  by (cases m) (simp_all add: bindE_def)

lemma bindE_Inr [simp]: "bindE (Inr x) f = f x"
  by (simp add: bindE_def)

lemma bindE_Inl [simp]: "bindE (Inl e) f = Inl e"
  by (simp add: bindE_def)

lemma mapE_Inr_all:
  assumes "mapE f xs = Inr ys" and "\<And>x y. x \<in> set xs \<Longrightarrow> f x = Inr y \<Longrightarrow> Q y"
  shows "\<forall>y\<in>set ys. Q y"
  using assms
proof (induction xs arbitrary: ys)
  case Nil
  then show ?case by simp
next
  case (Cons x xs)
  from Cons.prems(1) obtain y ys' where
    fx: "f x = Inr y" and rest: "mapE f xs = Inr ys'" and ys: "ys = y # ys'"
    by (auto split: sum.splits)
  have "Q y" using Cons.prems(2) [of x y] fx by simp
  moreover have "\<forall>y\<in>set ys'. Q y"
  proof (rule Cons.IH [OF rest])
    fix x' y'
    assume "x' \<in> set xs" and "f x' = Inr y'"
    then show "Q y'" using Cons.prems(2) [of x' y'] by simp
  qed
  ultimately show ?case by (simp add: ys)
qed

lemma mapE_total:
  assumes "\<And>x. x \<in> set xs \<Longrightarrow> \<exists>y. f x = Inr y"
  shows "\<exists>ys. mapE f xs = Inr ys"
  using assms
proof (induction xs)
  case Nil
  then show ?case by simp
next
  case (Cons x xs)
  then obtain y where "f x = Inr y" by auto
  moreover obtain ys where "mapE f xs = Inr ys" using Cons by auto
  ultimately show ?case by simp
qed

lemma mapE_length: "mapE f xs = Inr ys \<Longrightarrow> length ys = length xs"
  by (induction xs arbitrary: ys) (auto split: sum.splits)

subsection \<open>Importer: shape of the result\<close>

lemma parseOperation_security:
  assumes "parseOperation g m operation = Inr parsedOp"
  shows "\<exists>security. resolveSecurity (propOf operation ''security'') g = Inr security
           \<and> iop_security parsedOp = (if security \<noteq> [] then Some security else None)
           \<and> iop_method parsedOp = m"
proof -
  from assms obtain security parameters responses requestBody where
    s: "resolveSecurity (propOf operation ''security'') g = Inr security"
    and p: "parsedOp = \<lparr>iop_method = m,
               iop_tags = orElse (propOf operation ''tags'') (YSeq []),
               iop_summary = orElse (propOf operation ''summary'') (YStr []),
               iop_operationId = orElse (propOf operation ''operationId'') (YStr []),
               iop_description = orElse (propOf operation ''description'') (YStr []),
               iop_parameters = parameters,
               iop_responses = responses,
               iop_requestBody = requestBody,
               iop_security = (if security \<noteq> [] then Some security else None)\<rparr>"
    unfolding parseOperation_def bindE_Inr_iff by blast
  show ?thesis using s p by simp
qed

lemma parseOperation_nonempty_security:
  "parseOperation g m operation = Inr parsedOp \<Longrightarrow> iop_security parsedOp \<noteq> Some []"
  using parseOperation_security [of g m operation parsedOp] by (auto split: if_splits)

lemma parsePathItem_security:
  assumes "parsePathItem g pathItem = Inr ops"
  shows "\<forall>operation\<in>set ops. iop_security operation \<noteq> Some []"
proof -
  have nn: "\<not> nullish pathItem"
    using assms by (auto simp: parsePathItem_def)
  then have "bindE (mapE (\<lambda>method.
               if truthy (propOf pathItem method)
               then bindE (parseOperation g method (propOf pathItem method))
                      (\<lambda>operation. Inr [operation])
               else Inr [])
          httpMethods) (\<lambda>ops. Inr (concat ops)) = Inr ops"
    using assms by (simp add: parsePathItem_def)
  then obtain opss where
    m: "mapE (\<lambda>method.
               if truthy (propOf pathItem method)
               then bindE (parseOperation g method (propOf pathItem method))
                      (\<lambda>operation. Inr [operation])
               else Inr [])
          httpMethods = Inr opss"
    and ops: "ops = concat opss"
    unfolding bindE_Inr_iff by auto
  have "\<forall>l\<in>set opss. \<forall>operation\<in>set l. iop_security operation \<noteq> Some []"
  proof (rule mapE_Inr_all [OF m])
    fix mth y
    assume y: "(if truthy (propOf pathItem mth)
               then bindE (parseOperation g mth (propOf pathItem mth))
                      (\<lambda>operation. Inr [operation])
               else Inr []) = Inr y"
    show "\<forall>operation\<in>set y. iop_security operation \<noteq> Some []"
    proof (cases "truthy (propOf pathItem mth)")
      case False
      then show ?thesis using y by simp
    next
      case True
      then obtain operation where
        "parseOperation g mth (propOf pathItem mth) = Inr operation" "y = [operation]"
        using y by (auto simp: bindE_Inr_iff)
      then show ?thesis by (simp add: parseOperation_nonempty_security)
    qed
  qed
  then show ?thesis by (auto simp: ops)
qed

lemma parsePaths_security:
  assumes "parsePaths paths g = Inr ps"
  shows "\<forall>p\<in>set ps. \<forall>operation\<in>set (ipath_operations p). iop_security operation \<noteq> Some []"
proof (cases "truthy paths")
  case False
  then show ?thesis using assms by (simp add: parsePaths_def)
next
  case True
  then have "bindE (objectEntries paths)
          (\<lambda>entries.
             bindE (mapE (\<lambda>(pathKey, pathItem).
                            bindE (parsePathItem g pathItem)
                              (\<lambda>operations.
                                 Inr (if operations \<noteq> []
                                      then [\<lparr>ipath_path = pathKey, ipath_operations = operations\<rparr>]
                                      else [])))
                      entries)
               (\<lambda>result. Inr (concat result))) = Inr ps"
    using assms by (simp add: parsePaths_def)
  then obtain entries pss where
    m: "mapE (\<lambda>(pathKey, pathItem).
                bindE (parsePathItem g pathItem)
                  (\<lambda>operations.
                     Inr (if operations \<noteq> []
                          then [\<lparr>ipath_path = pathKey, ipath_operations = operations\<rparr>]
                          else [])))
          entries = Inr pss"
    and ps: "ps = concat pss"
    unfolding bindE_Inr_iff by auto
  have "\<forall>l\<in>set pss. \<forall>p\<in>set l. \<forall>operation\<in>set (ipath_operations p). iop_security operation \<noteq> Some []"
  proof (rule mapE_Inr_all [OF m])
    fix x y
    assume y: "(case x of (pathKey, pathItem) \<Rightarrow>
                bindE (parsePathItem g pathItem)
                  (\<lambda>operations.
                     Inr (if operations \<noteq> []
                          then [\<lparr>ipath_path = pathKey, ipath_operations = operations\<rparr>]
                          else []))) = Inr y"
    obtain pathKey pathItem where x: "x = (pathKey, pathItem)" by (cases x)
    from y obtain operations where
      o: "parsePathItem g pathItem = Inr operations"
      and yy: "y = (if operations \<noteq> []
                          then [\<lparr>ipath_path = pathKey, ipath_operations = operations\<rparr>]
                          else [])"
      by (auto simp: x bindE_Inr_iff)
    show "\<forall>p\<in>set y. \<forall>operation\<in>set (ipath_operations p). iop_security operation \<noteq> Some []"
      using parsePathItem_security [OF o] by (simp add: yy)
  qed
  then show ?thesis by (auto simp: ps)
qed

lemma import_object_result:
  assumes "parse c = Inr v" and "truthy v" and "typeofObject v"
    and "importYamlDocument parse c = Inr r"
  shows "\<exists>servers tags securitySchemes schemas paths.
           parsePaths (propOf v ''paths'') (propOf v ''security'') = Inr paths
           \<and> r = \<lparr>ir_success = ((if \<not> truthy (propOf v ''openapi'')
                                 then [''Missing required field: openapi''] else []) = []),
                   ir_document =
                     Some \<lparr>idoc_openapi = orElse (propOf v ''openapi'') (YStr ''3.0.0''),
                           idoc_info =
                             \<lparr>iinfo_title = orElse (optProp (propOf v ''info'') ''title'') (YStr []),
                              iinfo_description =
                                orElse (optProp (propOf v ''info'') ''description'') (YStr []),
                              iinfo_version =
                                orElse (optProp (propOf v ''info'') ''version'') (YStr ''1.0.0'')\<rparr>,
                           idoc_servers = servers,
                           idoc_securitySchemes = securitySchemes, idoc_tags = tags,
                           idoc_paths = paths, idoc_schemas = schemas\<rparr>,
                   ir_errors = (if \<not> truthy (propOf v ''openapi'')
                                then [''Missing required field: openapi''] else []),
                   ir_warnings =
                     (if \<not> truthy (optProp (propOf v ''info'') ''title'')
                      then [''Missing info.title - will be empty''] else [])
                     @ componentWarnings (propOf v ''components'')\<rparr>"
proof -
  have "bindE (mapArray parseServer (propOf v ''servers''))
                  (\<lambda>servers.
                bindE (mapArray parseTag (propOf v ''tags''))
                  (\<lambda>tags.
                bindE (parseSecuritySchemes (optProp (propOf v ''components'') ''securitySchemes''))
                  (\<lambda>securitySchemes.
                bindE (parseSchemas (optProp (propOf v ''components'') ''schemas''))
                  (\<lambda>schemas.
                bindE (parsePaths (propOf v ''paths'') (propOf v ''security''))
                  (\<lambda>paths.
                     Inr \<lparr>ir_success = ((if \<not> truthy (propOf v ''openapi'')
                           then [''Missing required field: openapi''] else []) = []),
                          ir_document = Some
                           \<lparr>idoc_openapi = orElse (propOf v ''openapi'') (YStr ''3.0.0''),
                            idoc_info = \<lparr>iinfo_title = orElse (optProp (propOf v ''info'') ''title'') (YStr []),
                              iinfo_description =
                                orElse (optProp (propOf v ''info'') ''description'') (YStr []),
                              iinfo_version =
                                orElse (optProp (propOf v ''info'') ''version'') (YStr ''1.0.0'')\<rparr>,
                            idoc_servers = servers,
                            idoc_securitySchemes = securitySchemes, idoc_tags = tags,
                            idoc_paths = paths, idoc_schemas = schemas\<rparr>,
                          ir_errors = (if \<not> truthy (propOf v ''openapi'')
                           then [''Missing required field: openapi''] else []),
                          ir_warnings = (if \<not> truthy (optProp (propOf v ''info'') ''title'')
                              then [''Missing info.title - will be empty''] else [])
                              @ componentWarnings (propOf v ''components'')\<rparr>))))) = Inr r"
    using assms by (simp add: importYamlDocument_def Let_def)
  then obtain servers tags securitySchemes schemas paths where
    p: "parsePaths (propOf v ''paths'') (propOf v ''security'') = Inr paths"
    and r: "r = \<lparr>ir_success = ((if \<not> truthy (propOf v ''openapi'')
                           then [''Missing required field: openapi''] else []) = []),
                          ir_document = Some
                           \<lparr>idoc_openapi = orElse (propOf v ''openapi'') (YStr ''3.0.0''),
                            idoc_info = \<lparr>iinfo_title = orElse (optProp (propOf v ''info'') ''title'') (YStr []),
                              iinfo_description =
                                orElse (optProp (propOf v ''info'') ''description'') (YStr []),
                              iinfo_version =
                                orElse (optProp (propOf v ''info'') ''version'') (YStr ''1.0.0'')\<rparr>,
                            idoc_servers = servers,
                            idoc_securitySchemes = securitySchemes, idoc_tags = tags,
                            idoc_paths = paths, idoc_schemas = schemas\<rparr>,
                          ir_errors = (if \<not> truthy (propOf v ''openapi'')
                           then [''Missing required field: openapi''] else []),
                          ir_warnings = (if \<not> truthy (optProp (propOf v ''info'') ''title'')
                              then [''Missing info.title - will be empty''] else [])
                              @ componentWarnings (propOf v ''components'')\<rparr>"
    unfolding bindE_Inr_iff by blast
  show ?thesis using p r by blast
qed

lemma falsy_optProp: "\<not> truthy c \<Longrightarrow> \<not> truthy (optProp c k)"
  by (cases c) (auto simp: optProp_def lookupOr_def indexed_def lengthNumber_def)

lemma import_parse_failure:
  "parse c = Inl message \<Longrightarrow>
     importYamlDocument parse c =
       Inr \<lparr>ir_success = False, ir_document = None,
            ir_errors = [''YAML Parse Error: '' @ message], ir_warnings = []\<rparr>"
  by (simp add: importYamlDocument_def)

lemma import_not_object:
  "parse c = Inr v \<Longrightarrow> \<not> truthy v \<or> \<not> typeofObject v \<Longrightarrow>
     importYamlDocument parse c =
       Inr \<lparr>ir_success = False, ir_document = None,
            ir_errors = [''Invalid document: must be an object''], ir_warnings = []\<rparr>"
  by (auto simp: importYamlDocument_def)

lemma import_success_iff:
  assumes "importYamlDocument parse c = Inr r"
  shows "ir_success r \<longleftrightarrow> ir_errors r = []"
proof (cases "parse c")
  case (Inl message)
  then show ?thesis using assms import_parse_failure [of parse c message] by auto
next
  case (Inr v)
  show ?thesis
  proof (cases "truthy v \<and> typeofObject v")
    case False
    then show ?thesis using assms import_not_object [of parse c v] Inr by auto
  next
    case True
    then show ?thesis
      using import_object_result [of parse c v r] Inr assms by auto
  qed
qed

lemma resolveSecurity_falsy: "\<not> truthy g \<Longrightarrow> nullish s \<Longrightarrow> resolveSecurity s g = Inr []"
  by (simp add: resolveSecurity_def nullishOr_def)

lemma import_bare_object_returns:
  assumes "parse c = Inr v" and "truthy v" and "typeofObject v"
    and "\<not> truthy (propOf v ''servers'')" and "\<not> truthy (propOf v ''tags'')"
    and "\<not> truthy (propOf v ''components'')" and "\<not> truthy (propOf v ''paths'')"
  shows "\<exists>r. importYamlDocument parse c = Inr r"
proof -
  have s: "mapArray parseServer (propOf v ''servers'') = Inr []"
    using assms(4) by (simp add: mapArray_def orElse_def)
  have t: "mapArray parseTag (propOf v ''tags'') = Inr []"
    using assms(5) by (simp add: mapArray_def orElse_def)
  have ss: "parseSecuritySchemes (optProp (propOf v ''components'') ''securitySchemes'') = Inr []"
    using falsy_optProp [OF assms(6)] by (simp add: parseSecuritySchemes_def)
  have sc: "parseSchemas (optProp (propOf v ''components'') ''schemas'') = Inr []"
    using falsy_optProp [OF assms(6)] by (simp add: parseSchemas_def)
  have p: "parsePaths (propOf v ''paths'') (propOf v ''security'') = Inr []"
    using assms(7) by (simp add: parsePaths_def)
  show ?thesis
    using assms(1-3) by (simp add: importYamlDocument_def Let_def s t ss sc p)
qed

lemma lookupOr_skip: "k \<noteq> k' \<Longrightarrow> lookupOr ((k', v) # kvs) k = lookupOr kvs k"
  by (simp add: lookupOr_def)

subsection \<open>Serializer string formatter\<close>

lemma doubleQuotes_simps:
  "doubleQuotes [] = []"
  "doubleQuotes (c # cs) = (if c = squote then [squote, squote] else [c]) @ doubleQuotes cs"
  by (simp_all add: doubleQuotes_def)

lemma formatDescription_multiline:
  assumes "newline \<in> set d"
  shows "formatDescription d indent =
           ''|'' @ [newline]
             @ js_join [newline] (map (\<lambda>line. replicate indent CHR '' '' @ line) (js_split newline d))"
proof -
  have "d \<noteq> []" using assms by auto
  then show ?thesis using assms by (simp add: formatDescription_def)
qed

lemma indented_lines_no_newline:
  "\<forall>x\<in>set (map (\<lambda>line. replicate indent CHR '' '' @ line) (js_split newline d)). newline \<notin> set x"
  by (auto dest: js_split_no_sep)

text \<open>
  Claim C3. \<^verbatim>\<open>formatDescription\<close> emits the empty string as two single quotes; a string
  containing a newline as \<^verbatim>\<open>|\<close>, a line break, and every line of the string behind
  \<open>indent\<close> spaces, the lines separated by line breaks; and any other string between single
  quotes with each single quote inside it doubled, so that \<^verbatim>\<open>It's fine\<close> becomes
  \<^verbatim>\<open>'It''s fine'\<close>.
\<close>

theorem formatDescription_cases:
  "formatDescription [] indent = [squote, squote]
   \<and> (newline \<in> set d \<longrightarrow>
        formatDescription d indent
          = ''|'' @ concat (map (\<lambda>line. newline # replicate indent CHR '' '' @ line)
                              (js_split newline d))
        \<and> take 2 (formatDescription d indent) = [CHR ''|'', newline]
        \<and> js_split newline (drop 2 (formatDescription d indent))
            = map (\<lambda>line. replicate indent CHR '' '' @ line) (js_split newline d))
   \<and> (d \<noteq> [] \<and> newline \<notin> set d \<longrightarrow>
        formatDescription d indent = squote # doubleQuotes d @ [squote])
   \<and> doubleQuotes [] = []
   \<and> doubleQuotes (c # cs) = (if c = squote then [squote, squote] else [c]) @ doubleQuotes cs
   \<and> formatDescription (''It'' @ [squote] @ ''s fine'') indent
        = [squote] @ ''It'' @ [squote, squote] @ ''s fine'' @ [squote]"
proof (intro conjI impI)
  show "formatDescription [] indent = [squote, squote]"
    by (simp add: formatDescription_def)
next
  assume nl: "newline \<in> set d"
  let ?ls = "map (\<lambda>line. replicate indent CHR '' '' @ line) (js_split newline d)"
  have ne: "?ls \<noteq> []" by (simp add: js_split_nonempty)
  have f: "formatDescription d indent = ''|'' @ [newline] @ js_join [newline] ?ls"
    by (rule formatDescription_multiline [OF nl])
  have "newline # js_join [newline] ?ls = concat (map (\<lambda>l. newline # l) ?ls)"
    by (rule newline_join_concat [OF ne])
  then show "formatDescription d indent
          = ''|'' @ concat (map (\<lambda>line. newline # replicate indent CHR '' '' @ line)
                              (js_split newline d))"
    by (simp add: f comp_def)
  show "take 2 (formatDescription d indent) = [CHR ''|'', newline]"
    by (simp add: f)
  have "js_split newline (js_join [newline] ?ls) = ?ls"
    by (rule js_split_join [OF ne indented_lines_no_newline])
  then show "js_split newline (drop 2 (formatDescription d indent)) = ?ls"
    by (simp add: f)
next
  assume "d \<noteq> [] \<and> newline \<notin> set d"
  then show "formatDescription d indent = squote # doubleQuotes d @ [squote]"
    by (simp add: formatDescription_def)
next
  show "formatDescription (''It'' @ [squote] @ ''s fine'') indent
        = [squote] @ ''It'' @ [squote, squote] @ ''s fine'' @ [squote]"
    by (simp add: formatDescription_def doubleQuotes_def)
qed (simp_all add: doubleQuotes_simps)

text \<open>The theorem at a two-line description with indent 4 and at a one-line description.\<close>

theorem formatDescription_cases_witness:
  "formatDescription (''ab'' @ [newline] @ ''c'') 4
     = ''|'' @ [newline] @ ''    ab'' @ [newline] @ ''    c''
   \<and> formatDescription ''plain'' 4 = [squote] @ ''plain'' @ [squote]"
proof -
  have m: "newline \<in> set (''ab'' @ [newline] @ ''c'')" by simp
  have s: "''plain'' \<noteq> [] \<and> newline \<notin> set ''plain''" by simp
  have l: "js_split newline (''ab'' @ [newline] @ ''c'') = [''ab'', ''c'']" by code_simp
  have r: "replicate 4 CHR '' '' = ''    ''" by code_simp
  have q: "doubleQuotes ''plain'' = ''plain''" by code_simp
  show ?thesis
    using formatDescription_cases [of 4 "''ab'' @ [newline] @ ''c''"]
      formatDescription_cases [of 4 "''plain''"] m s
    by (simp add: l r q)
qed

subsection \<open>Path-parameter synchronizer\<close>

lemma find_filter_conj: "find Q (filter P xs) = find (\<lambda>x. P x \<and> Q x) xs"
  by (induction xs) simp_all

lemma find_map_newPathParam:
  "find (\<lambda>p. param_name p = n) (map newPathParam ns) = (if n \<in> set ns then Some (newPathParam n) else None)"
  by (induction ns) (auto simp: newPathParam_def)

lemma map_filter_all_Some:
  "(\<And>x. x \<in> set xs \<Longrightarrow> f x = Some (g x)) \<Longrightarrow> List.map_filter f xs = map g xs"
  by (induction xs) (simp_all add: List.map_filter_simps)

lemma ordered_lookup:
  assumes "n \<in> set ds"
  shows "(case find (\<lambda>p. param_name p = n)
                 (filter (\<lambda>p. param_in p = ''path'' \<and> param_name p \<in> set ds) ps) of
            Some p \<Rightarrow> Some p
          | None \<Rightarrow>
              find (\<lambda>p. param_name p = n)
                (map newPathParam
                  (filter (\<lambda>m. m \<notin> set
                      (map param_name (filter (\<lambda>p. param_in p = ''path'' \<and> param_name p \<in> set ds) ps)))
                    ds)))
         = Some (paramFor ps n)"
proof -
  let ?ex = "filter (\<lambda>p. param_in p = ''path'' \<and> param_name p \<in> set ds) ps"
  have eq: "find (\<lambda>p. param_name p = n) ?ex = find (\<lambda>p. param_in p = ''path'' \<and> param_name p = n) ps"
    unfolding find_filter_conj using assms
    by (intro find_cong) auto
  show ?thesis
  proof (cases "find (\<lambda>p. param_in p = ''path'' \<and> param_name p = n) ps")
    case (Some p)
    then show ?thesis by (simp add: eq paramFor_def)
  next
    case None
    then have "n \<notin> set (map param_name ?ex)"
      by (auto simp: find_None_iff)
    then have "n \<in> set (filter (\<lambda>m. m \<notin> set (map param_name ?ex)) ds)"
      using assms by simp
    then show ?thesis
      using None by (simp add: eq paramFor_def find_map_newPathParam)
  qed
qed

lemma syncPathParameters_paramFor:
  "syncPathParameters ps t =
     map (paramFor ps) (extractPathParameters t) @ filter (\<lambda>p. param_in p \<noteq> ''path'') ps"
  unfolding syncPathParameters_def Let_def
  by (simp add: map_filter_all_Some [where g = "paramFor ps"] ordered_lookup)

lemma paramFor_name: "param_name (paramFor ps n) = n"
  by (auto simp: paramFor_def newPathParam_def split: option.splits dest: find_Some_iff [THEN iffD1])

lemma paramFor_inLoc: "param_in (paramFor ps n) = ''path''"
  by (auto simp: paramFor_def newPathParam_def split: option.splits dest: find_Some_iff [THEN iffD1])

text \<open>
  Claim C4 (as amended). For every parameter list and path template,
  \<^verbatim>\<open>syncPathParameters\<close> returns one path-location parameter per placeholder occurrence,
  in the order the placeholders appear in the template: the first stored path-location
  parameter of that name when there is one (kept as it is), otherwise a fresh parameter with
  \<^verbatim>\<open>required = true\<close>, type \<^verbatim>\<open>'string'\<close> and an empty description. Path-location
  parameters whose name no longer occurs are dropped, and so are later path-location
  parameters that repeat a name. After them come all non-path-location parameters,
  unchanged and in their original relative order. In particular
  \<^verbatim>\<open>sync([], "/a/{x}/{y}")\<close> is exactly two required string-typed path parameters named
  \<open>x\<close> then \<open>y\<close>.
\<close>

theorem syncPathParameters_ordering:
  "syncPathParameters ps t =
     map (\<lambda>n. case find (\<lambda>p. param_in p = ''path'' \<and> param_name p = n) ps of
                 Some p \<Rightarrow> p
               | None \<Rightarrow> newPathParam n)
         (extractPathParameters t)
     @ filter (\<lambda>p. param_in p \<noteq> ''path'') ps
   \<and> map param_name (take (length (extractPathParameters t)) (syncPathParameters ps t))
       = extractPathParameters t
   \<and> list_all (\<lambda>p. param_in p = ''path'')
       (take (length (extractPathParameters t)) (syncPathParameters ps t))
   \<and> drop (length (extractPathParameters t)) (syncPathParameters ps t)
       = filter (\<lambda>p. param_in p \<noteq> ''path'') ps
   \<and> filter (\<lambda>p. param_in p = ''path'') (syncPathParameters ps t)
       = take (length (extractPathParameters t)) (syncPathParameters ps t)
   \<and> syncPathParameters [] ''/a/{x}/{y}'' =
       [\<lparr>param_name = ''x'', param_in = ''path'', param_description = [], param_required = True, param_type = ''string'',
         param_format = None, param_enum = None, param_default = None, param_example = None, param_deprecated = None\<rparr>,
        \<lparr>param_name = ''y'', param_in = ''path'', param_description = [], param_required = True, param_type = ''string'',
         param_format = None, param_enum = None, param_default = None, param_example = None, param_deprecated = None\<rparr>]"
proof (intro conjI)
  show "syncPathParameters ps t =
     map (\<lambda>n. case find (\<lambda>p. param_in p = ''path'' \<and> param_name p = n) ps of
                 Some p \<Rightarrow> p
               | None \<Rightarrow> newPathParam n)
         (extractPathParameters t)
     @ filter (\<lambda>p. param_in p \<noteq> ''path'') ps"
    using syncPathParameters_paramFor [of ps t] by (simp add: paramFor_def [abs_def])
  show "map param_name (take (length (extractPathParameters t)) (syncPathParameters ps t))
       = extractPathParameters t"
    by (simp add: syncPathParameters_paramFor paramFor_name comp_def)
  show "list_all (\<lambda>p. param_in p = ''path'')
       (take (length (extractPathParameters t)) (syncPathParameters ps t))"
    by (simp add: syncPathParameters_paramFor paramFor_inLoc list_all_iff)
  show "drop (length (extractPathParameters t)) (syncPathParameters ps t)
       = filter (\<lambda>p. param_in p \<noteq> ''path'') ps"
    by (simp add: syncPathParameters_paramFor)
  have "filter (\<lambda>p. param_in p = ''path'') (map (paramFor ps) (extractPathParameters t))
          = map (paramFor ps) (extractPathParameters t)"
    by (simp add: filter_id_conv paramFor_inLoc)
  moreover have "filter (\<lambda>p. param_in p = ''path'') (filter (\<lambda>p. param_in p \<noteq> ''path'') ps) = []"
    by (simp add: filter_empty_conv)
  ultimately show "filter (\<lambda>p. param_in p = ''path'') (syncPathParameters ps t)
       = take (length (extractPathParameters t)) (syncPathParameters ps t)"
    by (simp add: syncPathParameters_paramFor)
  show "syncPathParameters [] ''/a/{x}/{y}'' =
       [\<lparr>param_name = ''x'', param_in = ''path'', param_description = [], param_required = True, param_type = ''string'',
         param_format = None, param_enum = None, param_default = None, param_example = None, param_deprecated = None\<rparr>,
        \<lparr>param_name = ''y'', param_in = ''path'', param_description = [], param_required = True, param_type = ''string'',
         param_format = None, param_enum = None, param_default = None, param_example = None, param_deprecated = None\<rparr>]"
    by code_simp
qed

text \<open>
  The theorem at a list holding a query parameter, a stored path parameter that stays and
  one that goes: the result is the fresh \<open>x\<close>, the stored \<open>y\<close>, then the query parameter.
\<close>

theorem syncPathParameters_ordering_witness:
  "syncPathParameters
      [\<lparr>param_name = ''q'', param_in = ''query'', param_description = ''filter'', param_required = False,
        param_type = ''string'', param_format = None, param_enum = None, param_default = None,
        param_example = None, param_deprecated = None\<rparr>,
       \<lparr>param_name = ''y'', param_in = ''path'', param_description = ''kept'', param_required = True,
        param_type = ''integer'', param_format = Some ''int64'', param_enum = None, param_default = None,
        param_example = None, param_deprecated = None\<rparr>,
       \<lparr>param_name = ''z'', param_in = ''path'', param_description = ''gone'', param_required = True,
        param_type = ''string'', param_format = None, param_enum = None, param_default = None,
        param_example = None, param_deprecated = None\<rparr>]
      ''/a/{x}/{y}''
    = [\<lparr>param_name = ''x'', param_in = ''path'', param_description = [], param_required = True, param_type = ''string'',
        param_format = None, param_enum = None, param_default = None, param_example = None, param_deprecated = None\<rparr>,
       \<lparr>param_name = ''y'', param_in = ''path'', param_description = ''kept'', param_required = True,
        param_type = ''integer'', param_format = Some ''int64'', param_enum = None, param_default = None,
        param_example = None, param_deprecated = None\<rparr>,
       \<lparr>param_name = ''q'', param_in = ''query'', param_description = ''filter'', param_required = False,
        param_type = ''string'', param_format = None, param_enum = None, param_default = None,
        param_example = None, param_deprecated = None\<rparr>]"
proof -
  have e: "extractPathParameters ''/a/{x}/{y}'' = [''x'', ''y'']"
    by code_simp
  show ?thesis
    using syncPathParameters_ordering [THEN conjunct1, of _ "''/a/{x}/{y}''"]
    by (simp add: e newPathParam_def)
qed

text \<open>
  C4 as stated keeps every stored path parameter whose name still occurs. Of two stored
  path parameters named \<open>x\<close> only the first survives.
\<close>

theorem syncPathParameters_drops_repeated_name:
  "syncPathParameters
      [\<lparr>param_name = ''x'', param_in = ''path'', param_description = ''first'', param_required = True,
        param_type = ''string'', param_format = None, param_enum = None, param_default = None,
        param_example = None, param_deprecated = None\<rparr>,
       \<lparr>param_name = ''x'', param_in = ''path'', param_description = ''second'', param_required = True,
        param_type = ''string'', param_format = None, param_enum = None, param_default = None,
        param_example = None, param_deprecated = None\<rparr>]
      ''/a/{x}''
    = [\<lparr>param_name = ''x'', param_in = ''path'', param_description = ''first'', param_required = True,
        param_type = ''string'', param_format = None, param_enum = None, param_default = None,
        param_example = None, param_deprecated = None\<rparr>]"
  by code_simp

subsection \<open>Operation-id generator\<close>

lemma js_join_empty_sep: "js_join [] xs = concat xs"
  by (induction "[] :: string" xs rule: js_join.induct) simp_all

lemma lastOrEmpty_filter_last:
  assumes "P seg" and "\<forall>s\<in>set post. \<not> P s"
  shows "lastOrEmpty (filter P (pre @ seg # post)) = seg"
proof -
  have "filter P post = []" using assms(2) by (simp add: filter_empty_conv)
  then show ?thesis using assms(1) by (simp add: lastOrEmpty_def)
qed

lemma lastOrEmpty_filter_none:
  assumes "\<forall>s\<in>set segs. \<not> P s"
  shows "lastOrEmpty (filter P segs) = []"
  using assms by (simp add: lastOrEmpty_def filter_empty_conv)

lemma capitalizeWord_simps:
  "capitalizeWord upperChr [] = []" "capitalizeWord upperChr (c # cs) = upperChr c @ cs"
  by (simp_all add: capitalizeWord_def)

lemma generateOperationId_segment:
  assumes "js_split CHR ''/'' pathStr = pre @ seg # post"
    and "seg \<noteq> []" and "\<not> startsWith seg ''{''"
    and "\<forall>s\<in>set post. s = [] \<or> startsWith s ''{''"
  shows "generateOperationId upperChr method pathStr
           = method @ concat (map (capitalizeWord upperChr) (js_split CHR ''-'' seg))"
proof -
  let ?keep = "\<lambda>p. p \<noteq> [] \<and> \<not> startsWith p ''{''"
  have "lastOrEmpty (filter ?keep (pre @ seg # post)) = seg"
    by (rule lastOrEmpty_filter_last) (use assms in auto)
  then show ?thesis
    using assms(1) by (simp add: generateOperationId_def js_join_empty_sep)
qed

lemma split_payment_plans:
  "js_split CHR ''/'' ''/contract-accounts/{id}/payment-plans''
     = [[], ''contract-accounts'', ''{id}''] @ ''payment-plans'' # []"
  by code_simp

lemma split_health: "js_split CHR ''/'' ''/health'' = [[]] @ ''health'' # []"
  by code_simp

lemma generateOperationId_payment_plans:
  assumes "upperChr CHR ''p'' = ''P''"
  shows "generateOperationId upperChr ''get'' ''/contract-accounts/{id}/payment-plans''
           = ''getPaymentPlans''"
proof -
  have w: "js_split CHR ''-'' ''payment-plans'' = [''payment'', ''plans'']"
    by code_simp
  have "generateOperationId upperChr ''get'' ''/contract-accounts/{id}/payment-plans''
          = ''get'' @ concat (map (capitalizeWord upperChr) (js_split CHR ''-'' ''payment-plans''))"
    by (rule generateOperationId_segment [OF split_payment_plans]) (simp_all add: startsWith_def)
  then show ?thesis
    using assms by (simp add: w capitalizeWord_simps)
qed

lemma generateOperationId_health:
  assumes "upperChr CHR ''h'' = ''H''"
  shows "generateOperationId upperChr method ''/health'' = method @ ''Health''"
proof -
  have w: "js_split CHR ''-'' ''health'' = [''health'']"
    by code_simp
  have "generateOperationId upperChr method ''/health''
          = method @ concat (map (capitalizeWord upperChr) (js_split CHR ''-'' ''health''))"
    by (rule generateOperationId_segment [OF split_health]) (simp_all add: startsWith_def)
  then show ?thesis
    using assms by (simp add: w capitalizeWord_simps)
qed

text \<open>
  Claim C5 (as amended). \<^verbatim>\<open>generateOperationId\<close> returns the method string exactly as
  it was given (there is no case conversion), followed by the last segment of the template
  that is non-empty and does not begin with \<^verbatim>\<open>{\<close>, with the first character of each of
  that segment's hyphen-delimited words replaced by its upper case (as
  \<^verbatim>\<open>toUpperCase\<close> gives it) and the words concatenated without separator. A template with
  no such segment yields the bare method string. In particular, \<^verbatim>\<open>toUpperCase\<close> mapping
  \<open>p\<close> to \<open>P\<close> and \<open>h\<close> to \<open>H\<close>,
  \<^verbatim>\<open>generate("get", "/contract-accounts/{id}/payment-plans") = "getPaymentPlans"\<close> and
  \<^verbatim>\<open>generate("post", "/health") = "postHealth"\<close>.
\<close>

theorem generateOperationId_last_segment:
  "(js_split CHR ''/'' pathStr = pre @ seg # post \<and> seg \<noteq> [] \<and> \<not> startsWith seg ''{''
      \<and> (\<forall>s\<in>set post. s = [] \<or> startsWith s ''{'')
     \<longrightarrow> generateOperationId upperChr method pathStr
           = method @ concat (map (capitalizeWord upperChr) (js_split CHR ''-'' seg)))
   \<and> ((\<forall>s\<in>set (js_split CHR ''/'' pathStr). s = [] \<or> startsWith s ''{'')
     \<longrightarrow> generateOperationId upperChr method pathStr = method)
   \<and> capitalizeWord upperChr [] = [] \<and> capitalizeWord upperChr (c # cs) = upperChr c @ cs
   \<and> (upperChr CHR ''p'' = ''P'' \<and> upperChr CHR ''h'' = ''H'' \<longrightarrow>
        generateOperationId upperChr ''get'' ''/contract-accounts/{id}/payment-plans''
          = ''getPaymentPlans''
        \<and> generateOperationId upperChr ''post'' ''/health'' = ''postHealth'')"
proof (intro conjI impI)
  assume "js_split CHR ''/'' pathStr = pre @ seg # post \<and> seg \<noteq> [] \<and> \<not> startsWith seg ''{''
      \<and> (\<forall>s\<in>set post. s = [] \<or> startsWith s ''{'')"
  then show "generateOperationId upperChr method pathStr
           = method @ concat (map (capitalizeWord upperChr) (js_split CHR ''-'' seg))"
    using generateOperationId_segment [of pathStr pre seg post upperChr "method"] by blast
next
  assume a: "\<forall>s\<in>set (js_split CHR ''/'' pathStr). s = [] \<or> startsWith s ''{''"
  let ?keep = "\<lambda>p. p \<noteq> [] \<and> \<not> startsWith p ''{''"
  have "lastOrEmpty (filter ?keep (js_split CHR ''/'' pathStr)) = []"
    by (rule lastOrEmpty_filter_none) (use a in auto)
  then show "generateOperationId upperChr method pathStr = method"
    by (simp add: generateOperationId_def capitalizeWord_simps)
next
  assume "upperChr CHR ''p'' = ''P'' \<and> upperChr CHR ''h'' = ''H''"
  then show "generateOperationId upperChr ''get'' ''/contract-accounts/{id}/payment-plans''
          = ''getPaymentPlans''"
    using generateOperationId_payment_plans [of upperChr] by blast
next
  assume "upperChr CHR ''p'' = ''P'' \<and> upperChr CHR ''h'' = ''H''"
  then show "generateOperationId upperChr ''post'' ''/health'' = ''postHealth''"
    using generateOperationId_health [of upperChr "''post''"] by simp
qed (simp_all add: capitalizeWord_simps)

text \<open>
  The theorem with the ASCII case mapping, at two templates with and without a usable
  segment and at the two examples of the claim.
\<close>

theorem generateOperationId_last_segment_witness:
  "generateOperationId asciiUpper ''put'' ''/pay-plans/{id}/'' = ''putPayPlans''
   \<and> generateOperationId asciiUpper ''Put'' ''/{id}'' = ''Put''
   \<and> generateOperationId asciiUpper ''get'' ''/contract-accounts/{id}/payment-plans''
        = ''getPaymentPlans''
   \<and> generateOperationId asciiUpper ''post'' ''/health'' = ''postHealth''"
proof -
  have s1: "js_split CHR ''/'' ''/pay-plans/{id}/'' = [[]] @ ''pay-plans'' # [''{id}'', []]"
    by code_simp
  have k1: "''pay-plans'' \<noteq> [] \<and> \<not> startsWith ''pay-plans'' ''{''"
    by (simp add: startsWith_def)
  have p1: "\<forall>s\<in>set [''{id}'', []]. s = [] \<or> startsWith s ''{''"
    by (simp add: startsWith_def)
  have c1: "concat (map (capitalizeWord asciiUpper) (js_split CHR ''-'' ''pay-plans'')) = ''PayPlans''"
    by code_simp
  have p2: "\<forall>s\<in>set (js_split CHR ''/'' ''/{id}''). s = [] \<or> startsWith s ''{''"
    by (simp add: startsWith_def)
  have u: "asciiUpper CHR ''p'' = ''P'' \<and> asciiUpper CHR ''h'' = ''H''"
    by code_simp
  have 1: "generateOperationId asciiUpper ''put'' ''/pay-plans/{id}/'' = ''putPayPlans''"
    using generateOperationId_last_segment
      [of "''/pay-plans/{id}/''" "[[]]" "''pay-plans''" "[''{id}'', []]" asciiUpper "''put''"]
      s1 k1 p1 c1
    by simp
  have 2: "generateOperationId asciiUpper ''Put'' ''/{id}'' = ''Put''"
    using generateOperationId_last_segment [of "''/{id}''" _ _ _ asciiUpper "''Put''"] p2
    by blast
  have 3: "generateOperationId asciiUpper ''get'' ''/contract-accounts/{id}/payment-plans''
        = ''getPaymentPlans''
      \<and> generateOperationId asciiUpper ''post'' ''/health'' = ''postHealth''"
    using generateOperationId_last_segment [where upperChr = asciiUpper] u
    by blast
  show ?thesis using 1 2 3 by blast
qed

text \<open>
  C5 as stated promises the lower-case method name; an upper-case method string is
  passed through unchanged.
\<close>

theorem generateOperationId_keeps_method_case:
  "generateOperationId asciiUpper ''GET'' ''/health'' = ''GETHealth''
   \<and> generateOperationId asciiUpper ''GET'' ''/health'' \<noteq> ''getHealth''"
  by code_simp

subsection \<open>Legacy-format migration\<close>

lemma migratePath_idem: "migratePath (migratePath p) = migratePath p"
  by (simp add: migratePath_def wrappedPath_def split: option.splits)

lemma ensureOperationsPath_eq: "ensureOperationsPath p = migratePath p"
  by (simp add: ensureOperationsPath_def migratePath_def)

lemma ensureOperationsFormat_eq: "ensureOperationsFormat doc = migrateDocument doc"
  by (simp add: ensureOperationsFormat_def migrateDocument_def ensureOperationsPath_eq [abs_def])

lemma migratePath_legacy:
  assumes "path_operations p = None" and "path_method p = Some m" and "m \<noteq> []"
  shows "migratePath p =
           \<lparr>path_path = path_path p,
            path_operations =
              Some [\<lparr>op_method = m,
                     op_tags = (case path_tags p of None \<Rightarrow> [] | Some ts \<Rightarrow> ts),
                     op_summary = (case path_summary p of None \<Rightarrow> [] | Some s \<Rightarrow> s),
                     op_operationId = (case path_operationId p of None \<Rightarrow> [] | Some s \<Rightarrow> s),
                     op_description = (case path_description p of None \<Rightarrow> [] | Some s \<Rightarrow> s),
                     op_deprecated = path_deprecated p,
                     op_parameters = (case path_parameters p of None \<Rightarrow> [] | Some ps \<Rightarrow> ps),
                     op_responses = (case path_responses p of None \<Rightarrow> [] | Some rs \<Rightarrow> rs),
                     op_requestBody = path_requestBody p,
                     op_security = path_security p\<rparr>],
            path_method = None, path_tags = None, path_summary = None,
            path_operationId = None, path_description = None, path_parameters = None,
            path_responses = None, path_requestBody = None, path_security = None,
            path_deprecated = None\<rparr>"
  using assms
  by (simp add: migratePath_def wrappedPath_def listOr_def strOr_def split: option.splits)

lemma migratePath_current: "path_operations p \<noteq> None \<Longrightarrow> migratePath p = p"
  by (simp add: migratePath_def)

lemma migratePath_other:
  "path_operations p = None \<Longrightarrow> path_method p = None \<or> path_method p = Some [] \<Longrightarrow> migratePath p = p"
  by (auto simp: migratePath_def)

text \<open>
  Claim C6. Both copies of the legacy-format migration (\<^verbatim>\<open>migrateDocument\<close> of the
  editing hook and \<^verbatim>\<open>ensureOperationsFormat\<close> of the serializer) give the same document
  and are idempotent on every document. They keep the number and the order of the paths
  and every other field of the document. A path in the flat legacy shape (a method that
  is not empty, no operations array) is replaced by a path with the same template and a
  one-element operations list built from the flat fields (missing tags, parameters and
  responses become empty lists, missing texts empty strings), and a path that already
  carries an operations array stays as it is; so does a path with neither.
\<close>

theorem migration_idempotent:
  "migrateDocument (migrateDocument doc) = migrateDocument doc
   \<and> ensureOperationsFormat (ensureOperationsFormat doc) = ensureOperationsFormat doc
   \<and> ensureOperationsFormat doc = migrateDocument doc
   \<and> length (doc_paths (migrateDocument doc)) = length (doc_paths doc)
   \<and> (migrateDocument doc)\<lparr>doc_paths := doc_paths doc\<rparr> = doc
   \<and> (i < length (doc_paths doc) \<and> path_operations (doc_paths doc ! i) = None
        \<and> path_method (doc_paths doc ! i) = Some m \<and> m \<noteq> [] \<longrightarrow>
        doc_paths (migrateDocument doc) ! i =
          \<lparr>path_path = path_path (doc_paths doc ! i),
           path_operations =
             Some [\<lparr>op_method = m,
                    op_tags = (case path_tags (doc_paths doc ! i) of None \<Rightarrow> [] | Some ts \<Rightarrow> ts),
                    op_summary = (case path_summary (doc_paths doc ! i) of None \<Rightarrow> [] | Some s \<Rightarrow> s),
                    op_operationId =
                      (case path_operationId (doc_paths doc ! i) of None \<Rightarrow> [] | Some s \<Rightarrow> s),
                    op_description =
                      (case path_description (doc_paths doc ! i) of None \<Rightarrow> [] | Some s \<Rightarrow> s),
                    op_deprecated = path_deprecated (doc_paths doc ! i),
                    op_parameters =
                      (case path_parameters (doc_paths doc ! i) of None \<Rightarrow> [] | Some ps \<Rightarrow> ps),
                    op_responses =
                      (case path_responses (doc_paths doc ! i) of None \<Rightarrow> [] | Some rs \<Rightarrow> rs),
                    op_requestBody = path_requestBody (doc_paths doc ! i),
                    op_security = path_security (doc_paths doc ! i)\<rparr>],
           path_method = None, path_tags = None, path_summary = None,
           path_operationId = None, path_description = None, path_parameters = None,
           path_responses = None, path_requestBody = None, path_security = None,
           path_deprecated = None\<rparr>)
   \<and> (i < length (doc_paths doc) \<and> path_operations (doc_paths doc ! i) \<noteq> None \<longrightarrow>
        doc_paths (migrateDocument doc) ! i = doc_paths doc ! i)
   \<and> (i < length (doc_paths doc) \<and> path_operations (doc_paths doc ! i) = None
        \<and> (path_method (doc_paths doc ! i) = None \<or> path_method (doc_paths doc ! i) = Some []) \<longrightarrow>
        doc_paths (migrateDocument doc) ! i = doc_paths doc ! i)"
proof (intro conjI impI)
  show "migrateDocument (migrateDocument doc) = migrateDocument doc"
    by (simp add: migrateDocument_def migratePath_idem)
  show "ensureOperationsFormat doc = migrateDocument doc"
    by (rule ensureOperationsFormat_eq)
  show "ensureOperationsFormat (ensureOperationsFormat doc) = ensureOperationsFormat doc"
    by (simp add: ensureOperationsFormat_eq migrateDocument_def migratePath_idem)
  show "length (doc_paths (migrateDocument doc)) = length (doc_paths doc)"
    by (simp add: migrateDocument_def)
  show "(migrateDocument doc)\<lparr>doc_paths := doc_paths doc\<rparr> = doc"
    by (simp add: migrateDocument_def)
next
  assume a: "i < length (doc_paths doc) \<and> path_operations (doc_paths doc ! i) = None
        \<and> path_method (doc_paths doc ! i) = Some m \<and> m \<noteq> []"
  then have "doc_paths (migrateDocument doc) ! i = migratePath (doc_paths doc ! i)"
    by (simp add: migrateDocument_def)
  then show "doc_paths (migrateDocument doc) ! i =
          \<lparr>path_path = path_path (doc_paths doc ! i),
           path_operations =
             Some [\<lparr>op_method = m,
                    op_tags = (case path_tags (doc_paths doc ! i) of None \<Rightarrow> [] | Some ts \<Rightarrow> ts),
                    op_summary = (case path_summary (doc_paths doc ! i) of None \<Rightarrow> [] | Some s \<Rightarrow> s),
                    op_operationId =
                      (case path_operationId (doc_paths doc ! i) of None \<Rightarrow> [] | Some s \<Rightarrow> s),
                    op_description =
                      (case path_description (doc_paths doc ! i) of None \<Rightarrow> [] | Some s \<Rightarrow> s),
                    op_deprecated = path_deprecated (doc_paths doc ! i),
                    op_parameters =
                      (case path_parameters (doc_paths doc ! i) of None \<Rightarrow> [] | Some ps \<Rightarrow> ps),
                    op_responses =
                      (case path_responses (doc_paths doc ! i) of None \<Rightarrow> [] | Some rs \<Rightarrow> rs),
                    op_requestBody = path_requestBody (doc_paths doc ! i),
                    op_security = path_security (doc_paths doc ! i)\<rparr>],
           path_method = None, path_tags = None, path_summary = None,
           path_operationId = None, path_description = None, path_parameters = None,
           path_responses = None, path_requestBody = None, path_security = None,
           path_deprecated = None\<rparr>"
    using a migratePath_legacy [of "doc_paths doc ! i" m] by simp
next
  assume a: "i < length (doc_paths doc) \<and> path_operations (doc_paths doc ! i) \<noteq> None"
  then have "doc_paths (migrateDocument doc) ! i = migratePath (doc_paths doc ! i)"
    by (simp add: migrateDocument_def)
  then show "doc_paths (migrateDocument doc) ! i = doc_paths doc ! i"
    using a migratePath_current [of "doc_paths doc ! i"] by simp
next
  assume a: "i < length (doc_paths doc) \<and> path_operations (doc_paths doc ! i) = None
        \<and> (path_method (doc_paths doc ! i) = None \<or> path_method (doc_paths doc ! i) = Some [])"
  then have "doc_paths (migrateDocument doc) ! i = migratePath (doc_paths doc ! i)"
    by (simp add: migrateDocument_def)
  then show "doc_paths (migrateDocument doc) ! i = doc_paths doc ! i"
    using a migratePath_other [of "doc_paths doc ! i"] by simp
qed

text \<open>
  The theorem at a document holding one legacy path and one current path: the legacy path
  becomes a path with its single \<open>get\<close> operation, the current one stays.
\<close>

theorem migration_idempotent_witness:
  "migrateDocument (exDocument [exLegacyPath, exPath [''get'']])
     = exDocument
         [\<lparr>path_path = ''/items'',
           path_operations =
             Some [\<lparr>op_method = ''get'', op_tags = [], op_summary = ''List items'',
                    op_operationId = [], op_description = [], op_deprecated = None,
                    op_parameters = [], op_responses = [exResponse], op_requestBody = None,
                    op_security = None\<rparr>],
           path_method = None, path_tags = None, path_summary = None,
           path_operationId = None, path_description = None, path_parameters = None,
           path_responses = None, path_requestBody = None, path_security = None,
           path_deprecated = None\<rparr>,
          exPath [''get'']]
   \<and> ensureOperationsFormat (exDocument [exLegacyPath, exPath [''get'']])
     = migrateDocument (exDocument [exLegacyPath, exPath [''get'']])
   \<and> migrateDocument (migrateDocument (exDocument [exLegacyPath, exPath [''get'']]))
     = migrateDocument (exDocument [exLegacyPath, exPath [''get'']])"
proof -
  let ?d = "exDocument [exLegacyPath, exPath [''get'']]"
  let ?w = "\<lparr>path_path = ''/items'',
           path_operations =
             Some [\<lparr>op_method = ''get'', op_tags = [], op_summary = ''List items'',
                    op_operationId = [], op_description = [], op_deprecated = None,
                    op_parameters = [], op_responses = [exResponse], op_requestBody = None,
                    op_security = None\<rparr>],
           path_method = None, path_tags = None, path_summary = None,
           path_operationId = None, path_description = None, path_parameters = None,
           path_responses = None, path_requestBody = None, path_security = None,
           path_deprecated = None\<rparr>"
  have p: "doc_paths ?d = [exLegacyPath, exPath [''get'']]"
    by (simp add: exDocument_def)
  have l: "0 < length (doc_paths ?d) \<and> path_operations (doc_paths ?d ! 0) = None
        \<and> path_method (doc_paths ?d ! 0) = Some ''get'' \<and> ''get'' \<noteq> []"
    unfolding p by (simp add: exLegacyPath_def)
  have c: "1 < length (doc_paths ?d) \<and> path_operations (doc_paths ?d ! 1) \<noteq> None"
    unfolding p by (simp add: exPath_def)
  note t0 = migration_idempotent [of ?d 0 "''get''"]
  note t1 = migration_idempotent [of ?d 1 "''get''"]
  note rest0 = t0 [THEN conjunct2, THEN conjunct2, THEN conjunct2]
  have n0: "doc_paths (migrateDocument ?d) ! 0 = ?w"
    using rest0 [THEN conjunct2, THEN conjunct2, THEN conjunct1, THEN mp, OF l]
    unfolding p by (simp add: exLegacyPath_def)
  have n1: "doc_paths (migrateDocument ?d) ! 1 = exPath [''get'']"
    using t1 [THEN conjunct2, THEN conjunct2, THEN conjunct2, THEN conjunct2, THEN conjunct2,
              THEN conjunct2, THEN conjunct1, THEN mp, OF c]
    unfolding p by simp
  have len: "length (doc_paths (migrateDocument ?d)) = 2"
    using rest0 [THEN conjunct1] unfolding p by simp
  have ps: "doc_paths (migrateDocument ?d) = [?w, exPath [''get'']]"
  proof (rule nth_equalityI)
    show "length (doc_paths (migrateDocument ?d)) = length [?w, exPath [''get'']]"
      using len by simp
  next
    fix j
    assume "j < length (doc_paths (migrateDocument ?d))"
    then have "j = 0 \<or> j = 1" using len by auto
    then show "doc_paths (migrateDocument ?d) ! j = [?w, exPath [''get'']] ! j"
      using n0 n1 by auto
  qed
  have rest: "(migrateDocument ?d)\<lparr>doc_paths := doc_paths ?d\<rparr> = ?d"
    by (rule rest0 [THEN conjunct2, THEN conjunct1])
  have "migrateDocument ?d = ((migrateDocument ?d)\<lparr>doc_paths := doc_paths ?d\<rparr>)
          \<lparr>doc_paths := doc_paths (migrateDocument ?d)\<rparr>"
    by simp
  also have "\<dots> = ?d\<lparr>doc_paths := [?w, exPath [''get'']]\<rparr>"
    by (simp only: rest ps)
  also have "\<dots> = exDocument [?w, exPath [''get'']]"
    by (simp add: exDocument_def)
  finally have 1: "migrateDocument ?d = exDocument [?w, exPath [''get'']]" .
  have 2: "ensureOperationsFormat ?d = migrateDocument ?d"
    by (rule t0 [THEN conjunct2, THEN conjunct2, THEN conjunct1])
  have 3: "migrateDocument (migrateDocument ?d) = migrateDocument ?d"
    by (rule t0 [THEN conjunct1])
  show ?thesis using 1 2 3 by blast
qed

subsection \<open>Importer: schema references\<close>

lemma matchSchemaRef_Some_sublist:
  "matchSchemaRef r = Some m \<Longrightarrow> sublist schemaRefPrefix r"
proof (induction r)
  case Nil
  then show ?case by simp
next
  case (Cons c cs)
  show ?case
  proof (cases "prefix schemaRefPrefix (c # cs)")
    case True
    then show ?thesis by (rule prefix_imp_sublist)
  next
    case False
    then have "matchSchemaRef cs = Some m" using Cons.prems by simp
    then have "sublist schemaRefPrefix cs" by (rule Cons.IH)
    then show ?thesis by (auto simp: sublist_Cons_right)
  qed
qed

lemma schemaRefPrefix_nonempty: "schemaRefPrefix \<noteq> []"
  by (simp add: schemaRefPrefix_def)

lemma matchSchemaRef_exact:
  assumes "name \<noteq> []" and "\<forall>c\<in>set name. \<not> lineTerminator c"
  shows "matchSchemaRef (schemaRefPrefix @ name) = Some name"
proof -
  have t: "takeWhile (\<lambda>x. \<not> lineTerminator x) name = name"
    using assms(2) by (simp add: takeWhile_eq_all_conv)
  obtain c cs where p: "schemaRefPrefix = c # cs"
    using schemaRefPrefix_nonempty by (cases schemaRefPrefix) auto
  have e: "schemaRefPrefix @ name = c # (cs @ name)" by (simp add: p)
  have pre: "prefix schemaRefPrefix (c # (cs @ name))"
    unfolding e [symmetric] by simp
  have d: "drop (length schemaRefPrefix) (c # (cs @ name)) = name"
    unfolding e [symmetric] by simp
  show ?thesis
    unfolding e using assms(1) by (simp add: pre d t)
qed

lemma matchSchemaRef_skip:
  "CHR ''#'' \<notin> set pre \<Longrightarrow> matchSchemaRef (pre @ r) = matchSchemaRef r"
proof (induction pre)
  case Nil
  then show ?case by simp
next
  case (Cons c pre)
  then have "\<not> prefix schemaRefPrefix (c # pre @ r)"
    by (auto simp: schemaRefPrefix_def)
  then show ?case using Cons by simp
qed

lemma extractSchemaRef_bare_prefix: "extractSchemaRef (Some schemaRefPrefix) = []"
  by code_simp

text \<open>
  Claim C7 (as amended). \<^verbatim>\<open>extractSchemaRef\<close> looks for the first place in the string
  where the text \<^verbatim>\<open>#/components/schemas/\<close> is followed by at least one character, and
  returns what follows it up to the end of the line. So a string of the exact form
  \<^verbatim>\<open>#/components/schemas/<Name>\<close> yields \<open><Name>\<close>; a reference that carries the same
  text behind a file name, \<^verbatim>\<open>file#/components/schemas/<Name>\<close>, yields \<open><Name>\<close> too;
  and a string that does not contain the text at all (a reference into
  \<^verbatim>\<open>parameters\<close>, say), the empty string and a missing reference yield the empty
  reference.
\<close>

theorem extractSchemaRef_first_occurrence:
  "((\<forall>c\<in>set name. \<not> lineTerminator c)
      \<longrightarrow> extractSchemaRef (Some (''#/components/schemas/'' @ name)) = name)
   \<and> (CHR ''#'' \<notin> set pre \<and> name \<noteq> [] \<and> (\<forall>c\<in>set name. \<not> lineTerminator c)
      \<longrightarrow> extractSchemaRef (Some (pre @ ''#/components/schemas/'' @ name)) = name)
   \<and> (\<not> sublist ''#/components/schemas/'' r \<longrightarrow> extractSchemaRef (Some r) = [])
   \<and> extractSchemaRef None = []"
proof (intro conjI impI)
  assume a: "\<forall>c\<in>set name. \<not> lineTerminator c"
  show "extractSchemaRef (Some (''#/components/schemas/'' @ name)) = name"
  proof (cases "name = []")
    case True
    then show ?thesis using extractSchemaRef_bare_prefix by (simp add: schemaRefPrefix_def)
  next
    case False
    then have "matchSchemaRef (schemaRefPrefix @ name) = Some name"
      using a by (rule matchSchemaRef_exact)
    then show ?thesis
      by (simp add: extractSchemaRef_def schemaRefPrefix_def)
  qed
next
  assume a: "CHR ''#'' \<notin> set pre \<and> name \<noteq> [] \<and> (\<forall>c\<in>set name. \<not> lineTerminator c)"
  then have "matchSchemaRef (pre @ schemaRefPrefix @ name) = Some name"
    by (simp add: matchSchemaRef_skip matchSchemaRef_exact)
  then show "extractSchemaRef (Some (pre @ ''#/components/schemas/'' @ name)) = name"
    by (simp add: extractSchemaRef_def schemaRefPrefix_def)
next
  assume a: "\<not> sublist ''#/components/schemas/'' r"
  have "matchSchemaRef r = None"
  proof (cases "matchSchemaRef r")
    case None
    then show ?thesis .
  next
    case (Some m)
    then have "sublist schemaRefPrefix r" by (rule matchSchemaRef_Some_sublist)
    then show ?thesis using a by (simp add: schemaRefPrefix_def)
  qed
  then show "extractSchemaRef (Some r) = []"
    by (simp add: extractSchemaRef_def)
next
  show "extractSchemaRef None = []" by (simp add: extractSchemaRef_def)
qed

text \<open>The theorem at a schema reference, an external-file reference and a parameter reference.\<close>

theorem extractSchemaRef_first_occurrence_witness:
  "extractSchemaRef (Some ''#/components/schemas/PaymentPlan'') = ''PaymentPlan''
   \<and> extractSchemaRef (Some ''defs.yaml#/components/schemas/Pet'') = ''Pet''
   \<and> extractSchemaRef (Some ''#/components/parameters/Id'') = []"
proof -
  have n1: "\<forall>c\<in>set ''PaymentPlan''. \<not> lineTerminator c" by (simp add: lineTerminator_def)
  have n2: "CHR ''#'' \<notin> set ''defs.yaml'' \<and> ''Pet'' \<noteq> [] \<and> (\<forall>c\<in>set ''Pet''. \<not> lineTerminator c)"
    by (simp add: lineTerminator_def)
  have n3: "\<not> sublist ''#/components/schemas/'' ''#/components/parameters/Id''"
    by code_simp
  show ?thesis
    using extractSchemaRef_first_occurrence [of "''PaymentPlan''" "''defs.yaml''" "''#/components/parameters/Id''"]
      extractSchemaRef_first_occurrence [of "''Pet''" "''defs.yaml''" "''#/components/parameters/Id''"]
      n1 n2 n3
    by simp
qed

text \<open>
  C7 as stated maps every reference of another shape, external files included, to the
  empty reference. A reference into another file is resolved to the schema name.
\<close>

theorem extractSchemaRef_external_file:
  "extractSchemaRef (Some ''other.yaml#/components/schemas/Pet'') = ''Pet''
   \<and> extractSchemaRef (Some ''other.yaml#/components/schemas/Pet'') \<noteq> []"
  by code_simp

subsection \<open>Structural validator\<close>














subsubsection \<open>The text serves for the line numbers only\<close>

















subsection \<open>Duplicating an operation\<close>

lemma map_enumerate_update:
  "i < length xs \<Longrightarrow>
     map (\<lambda>(j, x). if j \<noteq> i then x else f x) (enumerate 0 xs) = xs[i := f (xs ! i)]"
  by (rule nth_equalityI) (auto simp: nth_enumerate_eq nth_list_update)

lemma find_None_subset: "find (\<lambda>m. m \<notin> A) ms = None \<longleftrightarrow> set ms \<subseteq> A"
  by (auto simp: find_None_iff)

text \<open>
  Claim C9. Let the path at \<open>pathIndex\<close> carry the operations \<open>ops\<close> and let
  \<open>operationIndex\<close> select one of them. When every method of get, post, put, patch, delete
  is already used on the path, \<^verbatim>\<open>duplicatePath\<close> appends one new path: its template is the
  original template followed by \<^verbatim>\<open>_copy\<close> and it carries only the clone of the selected
  operation, with \<^verbatim>\<open>_copy\<close> appended to the operationId and equal parameter and response
  lists; all the paths of the document, the original one with its operations included,
  stay as they were. When some method is unused, the clone is added at the end of the same
  path under the first unused method, with the operationId generated from that method and
  the template, and nothing else changes.
\<close>

theorem duplicatePath_effect:
  "pathIndex < length (doc_paths document)
     \<and> path_operations (doc_paths document ! pathIndex) = Some ops
     \<and> operationIndex < length ops
   \<longrightarrow>
   (set [''get'', ''post'', ''put'', ''patch'', ''delete''] \<subseteq> set (map op_method ops) \<longrightarrow>
      duplicatePath upperChr document pathIndex operationIndex =
        Inr (document
          \<lparr>doc_paths := doc_paths document @
             [\<lparr>path_path = path_path (doc_paths document ! pathIndex) @ ''_copy'',
               path_operations =
                 Some [(ops ! operationIndex)
                         \<lparr>op_operationId := op_operationId (ops ! operationIndex) @ ''_copy''\<rparr>],
               path_method = None, path_tags = None, path_summary = None,
               path_operationId = None, path_description = None, path_parameters = None,
               path_responses = None, path_requestBody = None, path_security = None,
               path_deprecated = None\<rparr>]\<rparr>))
   \<and> (find (\<lambda>m. m \<notin> set (map op_method ops)) [''get'', ''post'', ''put'', ''patch'', ''delete'']
         = Some unused \<longrightarrow>
      unused \<in> set [''get'', ''post'', ''put'', ''patch'', ''delete'']
      \<and> unused \<notin> set (map op_method ops)
      \<and> duplicatePath upperChr document pathIndex operationIndex =
        Inr (document
          \<lparr>doc_paths := (doc_paths document)
             [pathIndex := (doc_paths document ! pathIndex)
                \<lparr>path_operations :=
                   Some (ops @
                     [(ops ! operationIndex)
                        \<lparr>op_method := unused,
                         op_operationId :=
                           generateOperationId upperChr unused
                             (path_path (doc_paths document ! pathIndex))\<rparr>])\<rparr>]\<rparr>))
   \<and> (set [''get'', ''post'', ''put'', ''patch'', ''delete''] \<subseteq> set (map op_method ops)
        \<or> (\<exists>m. find (\<lambda>m. m \<notin> set (map op_method ops))
                  [''get'', ''post'', ''put'', ''patch'', ''delete''] = Some m))"
proof (intro impI conjI)
  assume a: "pathIndex < length (doc_paths document)
     \<and> path_operations (doc_paths document ! pathIndex) = Some ops
     \<and> operationIndex < length ops"
  assume u: "set [''get'', ''post'', ''put'', ''patch'', ''delete''] \<subseteq> set (map op_method ops)"
  then have "find (\<lambda>m. m \<notin> set (map op_method ops)) availableMethods = None"
    by (simp only: find_None_subset availableMethods_def)
  then show "duplicatePath upperChr document pathIndex operationIndex =
        Inr (document
          \<lparr>doc_paths := doc_paths document @
             [\<lparr>path_path = path_path (doc_paths document ! pathIndex) @ ''_copy'',
               path_operations =
                 Some [(ops ! operationIndex)
                         \<lparr>op_operationId := op_operationId (ops ! operationIndex) @ ''_copy''\<rparr>],
               path_method = None, path_tags = None, path_summary = None,
               path_operationId = None, path_description = None, path_parameters = None,
               path_responses = None, path_requestBody = None, path_security = None,
               path_deprecated = None\<rparr>]\<rparr>)"
    using a by (simp add: duplicatePath_def Let_def wrappedPath_def)
next
  assume a: "pathIndex < length (doc_paths document)
     \<and> path_operations (doc_paths document ! pathIndex) = Some ops
     \<and> operationIndex < length ops"
  assume f: "find (\<lambda>m. m \<notin> set (map op_method ops)) [''get'', ''post'', ''put'', ''patch'', ''delete'']
         = Some unused"
  from f show "unused \<in> set [''get'', ''post'', ''put'', ''patch'', ''delete'']"
    unfolding find_Some_iff by (metis nth_mem)
  from f show "unused \<notin> set (map op_method ops)"
    unfolding find_Some_iff by blast
  let ?new = "(ops ! operationIndex)
                        \<lparr>op_method := unused,
                         op_operationId :=
                           generateOperationId upperChr unused
                             (path_path (doc_paths document ! pathIndex))\<rparr>"
  have "map (\<lambda>(i, p). if i \<noteq> pathIndex then p
                       else p\<lparr>path_operations := Some (listOr (path_operations p) @ [?new])\<rparr>)
            (enumerate 0 (doc_paths document))
        = (doc_paths document)
             [pathIndex := (doc_paths document ! pathIndex)
                \<lparr>path_operations := Some (ops @ [?new])\<rparr>]"
    using a by (simp add: map_enumerate_update listOr_def)
  moreover have "find (\<lambda>m. m \<notin> set (map op_method ops)) availableMethods = Some unused"
    using f by (simp only: availableMethods_def)
  ultimately show "duplicatePath upperChr document pathIndex operationIndex =
        Inr (document
          \<lparr>doc_paths := (doc_paths document)
             [pathIndex := (doc_paths document ! pathIndex)
                \<lparr>path_operations := Some (ops @ [?new])\<rparr>]\<rparr>)"
    using a by (simp add: duplicatePath_def Let_def)
next
  show "set [''get'', ''post'', ''put'', ''patch'', ''delete''] \<subseteq> set (map op_method ops)
        \<or> (\<exists>m. find (\<lambda>m. m \<notin> set (map op_method ops))
                  [''get'', ''post'', ''put'', ''patch'', ''delete''] = Some m)"
    using find_None_subset [of "set (map op_method ops)" "[''get'', ''post'', ''put'', ''patch'', ''delete'']"]
    by (cases "find (\<lambda>m. m \<notin> set (map op_method ops)) [''get'', ''post'', ''put'', ''patch'', ''delete'']") auto
qed

text \<open>
  The theorem at a path that uses all five methods (a new path \<^verbatim>\<open>/items_copy\<close> with the
  single cloned operation is appended) and at a path that uses only \<open>get\<close> (a \<open>post\<close>
  clone joins the same path).
\<close>

theorem duplicatePath_effect_witness:
  "duplicatePath asciiUpper
      (exDocument [exPath [''get'', ''post'', ''put'', ''patch'', ''delete'']]) 0 0
     = Inr (exDocument
         [exPath [''get'', ''post'', ''put'', ''patch'', ''delete''],
          \<lparr>path_path = ''/items_copy'',
           path_operations =
             Some [\<lparr>op_method = ''get'', op_tags = [], op_summary = ''List items'',
                    op_operationId = ''getItems_copy'', op_description = [],
                    op_deprecated = None, op_parameters = [], op_responses = [exResponse],
                    op_requestBody = None, op_security = None\<rparr>],
           path_method = None, path_tags = None, path_summary = None,
           path_operationId = None, path_description = None, path_parameters = None,
           path_responses = None, path_requestBody = None, path_security = None,
           path_deprecated = None\<rparr>])
   \<and> duplicatePath asciiUpper (exDocument [exPath [''get'']]) 0 0
     = Inr (exDocument
         [\<lparr>path_path = ''/items'',
           path_operations =
             Some [\<lparr>op_method = ''get'', op_tags = [], op_summary = ''List items'',
                    op_operationId = ''getItems'', op_description = [],
                    op_deprecated = None, op_parameters = [], op_responses = [exResponse],
                    op_requestBody = None, op_security = None\<rparr>,
                   \<lparr>op_method = ''post'', op_tags = [], op_summary = ''List items'',
                    op_operationId = ''postItems'', op_description = [],
                    op_deprecated = None, op_parameters = [], op_responses = [exResponse],
                    op_requestBody = None, op_security = None\<rparr>],
           path_method = None, path_tags = None, path_summary = None,
           path_operationId = None, path_description = None, path_parameters = None,
           path_responses = None, path_requestBody = None, path_security = None,
           path_deprecated = None\<rparr>])"
proof -
  let ?all = "[''get'', ''post'', ''put'', ''patch'', ''delete'']"
  have h1: "0 < length (doc_paths (exDocument [exPath ?all]))
     \<and> path_operations (doc_paths (exDocument [exPath ?all]) ! 0) = Some (map exOperation ?all)
     \<and> 0 < length (map exOperation ?all)"
    by (simp add: exDocument_def exPath_def)
  have u1: "set ?all \<subseteq> set (map op_method (map exOperation ?all))"
    by (simp add: exOperation_def)
  have r1: "duplicatePath asciiUpper (exDocument [exPath ?all]) 0 0 =
        Inr ((exDocument [exPath ?all])
          \<lparr>doc_paths := doc_paths (exDocument [exPath ?all]) @
             [\<lparr>path_path = path_path (doc_paths (exDocument [exPath ?all]) ! 0) @ ''_copy'',
               path_operations =
                 Some [(map exOperation ?all ! 0)
                         \<lparr>op_operationId := op_operationId (map exOperation ?all ! 0) @ ''_copy''\<rparr>],
               path_method = None, path_tags = None, path_summary = None,
               path_operationId = None, path_description = None, path_parameters = None,
               path_responses = None, path_requestBody = None, path_security = None,
               path_deprecated = None\<rparr>]\<rparr>)"
    using duplicatePath_effect [of 0 "exDocument [exPath ?all]" "map exOperation ?all" 0 asciiUpper]
      h1 u1
    by blast
  have e1: "(exDocument [exPath ?all])
          \<lparr>doc_paths := doc_paths (exDocument [exPath ?all]) @
             [\<lparr>path_path = path_path (doc_paths (exDocument [exPath ?all]) ! 0) @ ''_copy'',
               path_operations =
                 Some [(map exOperation ?all ! 0)
                         \<lparr>op_operationId := op_operationId (map exOperation ?all ! 0) @ ''_copy''\<rparr>],
               path_method = None, path_tags = None, path_summary = None,
               path_operationId = None, path_description = None, path_parameters = None,
               path_responses = None, path_requestBody = None, path_security = None,
               path_deprecated = None\<rparr>]\<rparr>
        = exDocument
         [exPath ?all,
          \<lparr>path_path = ''/items_copy'',
           path_operations =
             Some [\<lparr>op_method = ''get'', op_tags = [], op_summary = ''List items'',
                    op_operationId = ''getItems_copy'', op_description = [],
                    op_deprecated = None, op_parameters = [], op_responses = [exResponse],
                    op_requestBody = None, op_security = None\<rparr>],
           path_method = None, path_tags = None, path_summary = None,
           path_operationId = None, path_description = None, path_parameters = None,
           path_responses = None, path_requestBody = None, path_security = None,
           path_deprecated = None\<rparr>]"
    by (simp add: exDocument_def exPath_def exOperation_def)
  have h2: "0 < length (doc_paths (exDocument [exPath [''get'']]))
     \<and> path_operations (doc_paths (exDocument [exPath [''get'']]) ! 0) = Some (map exOperation [''get''])
     \<and> 0 < length (map exOperation [''get''])"
    by (simp add: exDocument_def exPath_def)
  have f2: "find (\<lambda>m. m \<notin> set (map op_method (map exOperation [''get'']))) ?all = Some ''post''"
    by (simp add: exOperation_def)
  have r2: "duplicatePath asciiUpper (exDocument [exPath [''get'']]) 0 0 =
        Inr ((exDocument [exPath [''get'']])
          \<lparr>doc_paths := (doc_paths (exDocument [exPath [''get'']]))
             [0 := (doc_paths (exDocument [exPath [''get'']]) ! 0)
                \<lparr>path_operations :=
                   Some (map exOperation [''get''] @
                     [(map exOperation [''get''] ! 0)
                        \<lparr>op_method := ''post'',
                         op_operationId :=
                           generateOperationId asciiUpper ''post''
                             (path_path (doc_paths (exDocument [exPath [''get'']]) ! 0))\<rparr>])\<rparr>]\<rparr>)"
    using duplicatePath_effect
      [of 0 "exDocument [exPath [''get'']]" "map exOperation [''get'']" 0 asciiUpper "''post''"]
      h2 f2
    by blast
  have g: "generateOperationId asciiUpper ''post'' ''/items'' = ''postItems''"
    by code_simp
  have e2: "(exDocument [exPath [''get'']])
          \<lparr>doc_paths := (doc_paths (exDocument [exPath [''get'']]))
             [0 := (doc_paths (exDocument [exPath [''get'']]) ! 0)
                \<lparr>path_operations :=
                   Some (map exOperation [''get''] @
                     [(map exOperation [''get''] ! 0)
                        \<lparr>op_method := ''post'',
                         op_operationId :=
                           generateOperationId asciiUpper ''post''
                             (path_path (doc_paths (exDocument [exPath [''get'']]) ! 0))\<rparr>])\<rparr>]\<rparr>
       = exDocument
         [\<lparr>path_path = ''/items'',
           path_operations =
             Some [\<lparr>op_method = ''get'', op_tags = [], op_summary = ''List items'',
                    op_operationId = ''getItems'', op_description = [],
                    op_deprecated = None, op_parameters = [], op_responses = [exResponse],
                    op_requestBody = None, op_security = None\<rparr>,
                   \<lparr>op_method = ''post'', op_tags = [], op_summary = ''List items'',
                    op_operationId = ''postItems'', op_description = [],
                    op_deprecated = None, op_parameters = [], op_responses = [exResponse],
                    op_requestBody = None, op_security = None\<rparr>],
           path_method = None, path_tags = None, path_summary = None,
           path_operationId = None, path_description = None, path_parameters = None,
           path_responses = None, path_requestBody = None, path_security = None,
           path_deprecated = None\<rparr>]"
    by (simp add: exDocument_def exPath_def exOperation_def g)
  show ?thesis using r1 e1 r2 e2 by simp
qed

subsection \<open>Importer: results and failures\<close>

text \<open>
  Claim C2 (as amended). When the YAML parse fails, \<^verbatim>\<open>importYamlDocument\<close> returns
  \<^verbatim>\<open>success = false\<close> with exactly one error and no document, and so it does when the
  parsed value is not an object (null, a scalar). For a parsed object, every result it
  returns carries a document, also when the errors list is not empty (the only error of
  that stage is the missing \<^verbatim>\<open>openapi\<close> field). On every result \<^verbatim>\<open>success\<close> holds
  exactly when the errors list is empty. A parsed object without \<^verbatim>\<open>servers\<close>,
  \<^verbatim>\<open>tags\<close>, \<^verbatim>\<open>components\<close> and \<^verbatim>\<open>paths\<close> always yields a result.
\<close>

theorem import_result_shape:
  "(parse yamlContent = Inl message \<longrightarrow>
      importYamlDocument parse yamlContent =
        Inr \<lparr>ir_success = False, ir_document = None,
             ir_errors = [''YAML Parse Error: '' @ message], ir_warnings = []\<rparr>)
   \<and> (parse yamlContent = Inr v \<and> (\<not> truthy v \<or> \<not> typeofObject v) \<longrightarrow>
      importYamlDocument parse yamlContent =
        Inr \<lparr>ir_success = False, ir_document = None,
             ir_errors = [''Invalid document: must be an object''], ir_warnings = []\<rparr>)
   \<and> (parse yamlContent = Inr v \<and> truthy v \<and> typeofObject v
        \<and> importYamlDocument parse yamlContent = Inr r \<longrightarrow>
      ir_document r \<noteq> None
      \<and> ir_errors r = (if truthy (propOf v ''openapi'') then []
                       else [''Missing required field: openapi'']))
   \<and> (importYamlDocument parse yamlContent = Inr r \<longrightarrow> (ir_success r \<longleftrightarrow> ir_errors r = []))
   \<and> (parse yamlContent = Inr v \<and> truthy v \<and> typeofObject v
        \<and> \<not> truthy (propOf v ''servers'') \<and> \<not> truthy (propOf v ''tags'')
        \<and> \<not> truthy (propOf v ''components'') \<and> \<not> truthy (propOf v ''paths'') \<longrightarrow>
      (\<exists>res. importYamlDocument parse yamlContent = Inr res))"
proof (intro conjI impI)
  assume "parse yamlContent = Inl message"
  then show "importYamlDocument parse yamlContent =
        Inr \<lparr>ir_success = False, ir_document = None,
             ir_errors = [''YAML Parse Error: '' @ message], ir_warnings = []\<rparr>"
    by (rule import_parse_failure)
next
  assume "parse yamlContent = Inr v \<and> (\<not> truthy v \<or> \<not> typeofObject v)"
  then show "importYamlDocument parse yamlContent =
        Inr \<lparr>ir_success = False, ir_document = None,
             ir_errors = [''Invalid document: must be an object''], ir_warnings = []\<rparr>"
    using import_not_object [of parse yamlContent v] by blast
next
  assume a: "parse yamlContent = Inr v \<and> truthy v \<and> typeofObject v
        \<and> importYamlDocument parse yamlContent = Inr r"
  then show "ir_document r \<noteq> None"
    using import_object_result [of parse yamlContent v r] by auto
  from a show "ir_errors r = (if truthy (propOf v ''openapi'') then []
                       else [''Missing required field: openapi''])"
    using import_object_result [of parse yamlContent v r] by auto
next
  assume "importYamlDocument parse yamlContent = Inr r"
  then show "ir_success r \<longleftrightarrow> ir_errors r = []"
    by (rule import_success_iff)
next
  assume "parse yamlContent = Inr v \<and> truthy v \<and> typeofObject v
        \<and> \<not> truthy (propOf v ''servers'') \<and> \<not> truthy (propOf v ''tags'')
        \<and> \<not> truthy (propOf v ''components'') \<and> \<not> truthy (propOf v ''paths'')"
  then show "\<exists>res. importYamlDocument parse yamlContent = Inr res"
    using import_bare_object_returns [of parse yamlContent v] by blast
qed

text \<open>
  The theorem at a document holding only \<^verbatim>\<open>info.title\<close> (a document is built, one
  error, no success) and at a text the parser rejects.
\<close>

theorem import_result_shape_witness:
  "map_sum id (\<lambda>r. (ir_success r, ir_document r \<noteq> None, ir_errors r))
     (importYamlDocument (\<lambda>text. Inr (YMap [(''info'', YMap [(''title'', YStr ''Shop'')])]))
        ''info: {title: Shop}'')
     = Inr (False, True, [''Missing required field: openapi''])
   \<and> importYamlDocument (\<lambda>text. Inl ''Unexpected token'') ''{''
     = Inr \<lparr>ir_success = False, ir_document = None,
            ir_errors = [''YAML Parse Error: Unexpected token''], ir_warnings = []\<rparr>"
proof -
  let ?v = "YMap [(''info'', YMap [(''title'', YStr ''Shop'')])]"
  let ?parse = "\<lambda>text :: string. (Inr ?v :: string + yval)"
  let ?c = "''info: {title: Shop}''"
  have h: "?parse ?c = Inr ?v \<and> truthy ?v \<and> typeofObject ?v
        \<and> \<not> truthy (propOf ?v ''servers'') \<and> \<not> truthy (propOf ?v ''tags'')
        \<and> \<not> truthy (propOf ?v ''components'') \<and> \<not> truthy (propOf ?v ''paths'')"
    by (simp add: lookupOr_def)
  have o: "\<not> truthy (propOf ?v ''openapi'')"
    by (simp add: lookupOr_def)
  obtain r where r: "importYamlDocument ?parse ?c = Inr r"
    using import_result_shape [of ?parse ?c _ ?v] h by blast
  have d: "ir_document r \<noteq> None"
    and e: "ir_errors r = [''Missing required field: openapi'']"
    and s: "ir_success r \<longleftrightarrow> ir_errors r = []"
    using import_result_shape [of ?parse ?c _ ?v r] h r o by auto
  have 1: "map_sum id (\<lambda>r. (ir_success r, ir_document r \<noteq> None, ir_errors r))
             (importYamlDocument ?parse ?c)
           = Inr (False, True, [''Missing required field: openapi''])"
    using r d e s by simp
  have 2: "importYamlDocument (\<lambda>text. Inl ''Unexpected token'') ''{''
     = Inr \<lparr>ir_success = False, ir_document = None,
            ir_errors = [''YAML Parse Error: Unexpected token''], ir_warnings = []\<rparr>"
    using import_result_shape [of "\<lambda>text. Inl ''Unexpected token''" "''{''" "''Unexpected token''"]
    by simp
  show ?thesis using 1 2 by blast
qed

text \<open>
  C2 as stated says that only a parse failure goes without a document and that nothing is
  ever thrown. The text \<^verbatim>\<open>42\<close> parses (to a number) and gets no document; the text
  \<^verbatim>\<open>servers: abc\<close> parses to an object whose \<^verbatim>\<open>servers\<close> is a string, and mapping
  over it throws a TypeError that nothing catches.
\<close>

theorem import_no_document_and_throw:
  "importYamlDocument (\<lambda>text. Inr (YNum (JsNumber False ''42''))) ''42''
     = Inr \<lparr>ir_success = False, ir_document = None,
            ir_errors = [''Invalid document: must be an object''], ir_warnings = []\<rparr>
   \<and> importYamlDocument (\<lambda>text. Inr (YMap [(''servers'', YStr ''abc'')])) ''servers: abc''
     = Inl TypeError"
  by code_simp

subsection \<open>Importer: operation security\<close>

text \<open>
  Claim C10. In every document \<^verbatim>\<open>importYamlDocument\<close> produces, no operation carries an
  empty security list. The scheme names of an operation come from its own \<^verbatim>\<open>security\<close>
  list when it has one and from the global list otherwise; when they are no names at all,
  the field is stored as undefined (\<open>None\<close>), otherwise as the list of names. An own
  \<^verbatim>\<open>security: []\<close> resolves to no names whatever the global list is, so it is stored
  exactly as a missing field is; and in a document without global security an operation
  with \<^verbatim>\<open>security: []\<close> and the same operation without the field import to the same
  value.
\<close>

theorem import_security_never_empty:
  "(importYamlDocument parse yamlContent = Inr r \<and> ir_document r = Some d \<longrightarrow>
      (\<forall>p\<in>set (idoc_paths d). \<forall>operation\<in>set (ipath_operations p).
          iop_security operation \<noteq> Some []))
   \<and> (parseOperation globalSecurity method operation = Inr parsedOp \<longrightarrow>
        (\<exists>names. resolveSecurity (propOf operation ''security'') globalSecurity = Inr names
           \<and> (names = [] \<longrightarrow> iop_security parsedOp = None)
           \<and> (names \<noteq> [] \<longrightarrow> iop_security parsedOp = Some names)))
   \<and> (\<not> nullish operationSecurity \<longrightarrow>
        resolveSecurity operationSecurity globalSecurity = resolveSecurity operationSecurity YUndef)
   \<and> (nullish operationSecurity \<longrightarrow>
        resolveSecurity operationSecurity globalSecurity = resolveSecurity globalSecurity YUndef)
   \<and> resolveSecurity (YSeq []) globalSecurity = Inr []
   \<and> (map_of kvs ''security'' = None \<and> \<not> truthy globalSecurity \<longrightarrow>
        parseOperation globalSecurity method (YMap ((''security'', YSeq []) # kvs))
          = parseOperation globalSecurity method (YMap kvs))"
proof (intro conjI impI)
  assume a: "importYamlDocument parse yamlContent = Inr r \<and> ir_document r = Some d"
  show "\<forall>p\<in>set (idoc_paths d). \<forall>operation\<in>set (ipath_operations p).
          iop_security operation \<noteq> Some []"
  proof (cases "parse yamlContent")
    case (Inl message)
    then show ?thesis using a import_parse_failure [of parse yamlContent message] by auto
  next
    case (Inr v)
    show ?thesis
    proof (cases "truthy v \<and> typeofObject v")
      case False
      then show ?thesis using a import_not_object [of parse yamlContent v] Inr by auto
    next
      case True
      then obtain paths where
        p: "parsePaths (propOf v ''paths'') (propOf v ''security'') = Inr paths"
        and d: "idoc_paths d = paths"
        using import_object_result [of parse yamlContent v r] Inr a by auto
      show ?thesis using parsePaths_security [OF p] by (simp add: d)
    qed
  qed
next
  assume "parseOperation globalSecurity method operation = Inr parsedOp"
  then show "\<exists>names. resolveSecurity (propOf operation ''security'') globalSecurity = Inr names
           \<and> (names = [] \<longrightarrow> iop_security parsedOp = None)
           \<and> (names \<noteq> [] \<longrightarrow> iop_security parsedOp = Some names)"
    using parseOperation_security [of globalSecurity "method" operation parsedOp] by auto
next
  assume "\<not> nullish operationSecurity"
  then show "resolveSecurity operationSecurity globalSecurity = resolveSecurity operationSecurity YUndef"
    by (simp add: resolveSecurity_def nullishOr_def)
next
  assume "nullish operationSecurity"
  then show "resolveSecurity operationSecurity globalSecurity = resolveSecurity globalSecurity YUndef"
    by (cases globalSecurity) (simp_all add: resolveSecurity_def nullishOr_def)
next
  show "resolveSecurity (YSeq []) globalSecurity = Inr []"
    by (simp add: resolveSecurity_def nullishOr_def)
next
  assume a: "map_of kvs ''security'' = None \<and> \<not> truthy globalSecurity"
  have 1: "resolveSecurity (propOf (YMap ((''security'', YSeq []) # kvs)) ''security'') globalSecurity
           = resolveSecurity (propOf (YMap kvs) ''security'') globalSecurity"
    using a by (simp add: lookupOr_def resolveSecurity_def nullishOr_def)
  have 2: "\<And>k. k \<noteq> ''security'' \<Longrightarrow>
             propOf (YMap ((''security'', YSeq []) # kvs)) k = propOf (YMap kvs) k"
    by (simp add: lookupOr_skip)
  show "parseOperation globalSecurity method (YMap ((''security'', YSeq []) # kvs))
          = parseOperation globalSecurity method (YMap kvs)"
    unfolding parseOperation_def 1 by (simp add: 2 del: propOf.simps)
qed

text \<open>
  The theorem at a document with a global security list and two operations: \<open>get\<close> with
  \<^verbatim>\<open>security: []\<close> is stored without security, \<open>post\<close> inherits the global scheme.
\<close>

theorem import_security_never_empty_witness:
  "map_sum id
     (\<lambda>r. map (\<lambda>p. map iop_security (ipath_operations p))
            (case ir_document r of None \<Rightarrow> [] | Some d \<Rightarrow> idoc_paths d))
     (importYamlDocument
        (\<lambda>text. Inr (YMap
           [(''openapi'', YStr ''3.0.0''),
            (''security'', YSeq [YMap [(''bearerAuth'', YSeq [])]]),
            (''paths'', YMap [(''/items'',
               YMap [(''get'', YMap [(''security'', YSeq [])]),
                     (''post'', YMap [(''summary'', YStr ''Create'')])])])]))
        ''openapi: 3.0.0'')
     = Inr [[None, Some [''bearerAuth'']]]
   \<and> resolveSecurity (YSeq []) (YSeq [YMap [(''bearerAuth'', YSeq [])]]) = Inr []"
proof -
  have 1: "map_sum id
     (\<lambda>r. map (\<lambda>p. map iop_security (ipath_operations p))
            (case ir_document r of None \<Rightarrow> [] | Some d \<Rightarrow> idoc_paths d))
     (importYamlDocument
        (\<lambda>text. Inr (YMap
           [(''openapi'', YStr ''3.0.0''),
            (''security'', YSeq [YMap [(''bearerAuth'', YSeq [])]]),
            (''paths'', YMap [(''/items'',
               YMap [(''get'', YMap [(''security'', YSeq [])]),
                     (''post'', YMap [(''summary'', YStr ''Create'')])])])]))
        ''openapi: 3.0.0'')
     = Inr [[None, Some [''bearerAuth'']]]"
    by code_simp
  let ?parse = "\<lambda>text :: string. (Inr (YMap
           [(''openapi'', YStr ''3.0.0''),
            (''security'', YSeq [YMap [(''bearerAuth'', YSeq [])]]),
            (''paths'', YMap [(''/items'',
               YMap [(''get'', YMap [(''security'', YSeq [])]),
                     (''post'', YMap [(''summary'', YStr ''Create'')])])])]) :: string + yval)"
  obtain r where r: "importYamlDocument ?parse ''openapi: 3.0.0'' = Inr r"
    and l: "map (\<lambda>p. map iop_security (ipath_operations p))
              (case ir_document r of None \<Rightarrow> [] | Some d \<Rightarrow> idoc_paths d)
            = [[None, Some [''bearerAuth'']]]"
    using 1 by (cases "importYamlDocument ?parse ''openapi: 3.0.0''") auto
  obtain d where d: "ir_document r = Some d"
    using l by (cases "ir_document r") auto
  have 3: "\<forall>p\<in>set (idoc_paths d). \<forall>operation\<in>set (ipath_operations p).
             iop_security operation \<noteq> Some []"
    using import_security_never_empty [of ?parse "''openapi: 3.0.0''" r d] r d by blast
  have 2: "resolveSecurity (YSeq []) (YSeq [YMap [(''bearerAuth'', YSeq [])]]) = Inr []"
    using import_security_never_empty
      [where globalSecurity = "YSeq [YMap [(''bearerAuth'', YSeq [])]]"]
    by blast
  show ?thesis using 1 2 3 by blast
qed

subsection \<open>Serializer and round trip\<close>

lemma mapE_map: "mapE f (map g xs) = mapE (\<lambda>x. f (g x)) xs"
  by (induction xs) (auto split: sum.splits)

lemma emitProperty_erase: "emitProperty (eraseProperty p) = emitProperty p"
  by (simp add: emitProperty_def eraseProperty_def)

lemma emitSchema_erase: "emitSchema (eraseSchema s) = emitSchema s"
  by (simp add: emitSchema_def eraseSchema_def emitProperty_erase comp_def)

lemma emitOperation_erase: "emitOperation (eraseOperation operation) = emitOperation operation"
  by (simp add: emitOperation_def eraseOperation_def)

lemma emitPath_erase:
  "emitPath (ensureOperationsPath (erasePath p)) = emitPath (ensureOperationsPath p)"
proof (cases "path_operations p")
  case (Some ops)
  then show ?thesis
    by (simp add: ensureOperationsPath_def erasePath_def emitPath_def emitOperation_erase comp_def)
next
  case None
  then show ?thesis
    by (simp add: ensureOperationsPath_def erasePath_def emitPath_def wrappedPath_def
          emitOperation_def split: option.splits)
qed

lemma buildYamlDocument_erase: "buildYamlDocument (eraseUnwritten doc) = buildYamlDocument doc"
proof -
  let ?e = "ensureOperationsFormat (eraseUnwritten doc)"
  let ?d = "ensureOperationsFormat doc"
  have A: "mapE emitPath (doc_paths ?e) = mapE emitPath (doc_paths ?d)"
    by (simp add: ensureOperationsFormat_def eraseUnwritten_def mapE_map emitPath_erase)
  have B: "map emitSchema (doc_schemas ?e) = map emitSchema (doc_schemas ?d)"
    by (simp add: ensureOperationsFormat_def eraseUnwritten_def emitSchema_erase comp_def)
  have C: "(doc_schemas ?e = []) = (doc_schemas ?d = [])"
    by (simp add: ensureOperationsFormat_def eraseUnwritten_def)
  have D: "(doc_paths ?e = []) = (doc_paths ?d = [])"
    by (simp add: ensureOperationsFormat_def eraseUnwritten_def)
  have E: "doc_openapi ?e = doc_openapi ?d" "doc_info ?e = doc_info ?d"
    "doc_servers ?e = doc_servers ?d" "doc_tags ?e = doc_tags ?d"
    "doc_securitySchemes ?e = doc_securitySchemes ?d"
    "doc_securitySchemes (eraseUnwritten doc) = doc_securitySchemes doc"
    by (simp_all add: ensureOperationsFormat_def eraseUnwritten_def)
  show ?thesis
    unfolding buildYamlDocument_def Let_def
    by (simp only: A B C D E)
qed

text \<open>
  The text \<^verbatim>\<open>buildYamlDocument\<close> produces does not depend on the \<^verbatim>\<open>required\<close> flag of
  schema properties, on the security list of operations or on the \<^verbatim>\<open>isTemplate\<close> flag
  of schemas, so whatever the YAML parser returns for a text, the import of the serialized
  document is the same for two documents that differ in these fields only.
\<close>

lemma roundTrip_erase: "roundTrip parse (eraseUnwritten doc) = roundTrip parse doc"
  by (simp add: roundTrip_def buildYamlDocument_erase)

text \<open>
  Two documents that differ in the \<^verbatim>\<open>required\<close> flag of one property only, and are
  their own normal forms for the enum text and the \<^verbatim>\<open>isTemplate\<close> flag, serialize
  alike.
\<close>

lemma serializer_conflates_required:
  "buildYamlDocument (exSchemaDocument (Some True)) = buildYamlDocument (exSchemaDocument (Some False))
   \<and> normalizeLossy (exSchemaDocument (Some True)) \<noteq> normalizeLossy (exSchemaDocument (Some False))
   \<and> normalizeLossy (exSchemaDocument (Some True)) = exSchemaDocument (Some True)
   \<and> normalizeLossy (exSchemaDocument (Some False)) = exSchemaDocument (Some False)"
  by code_simp

end
